theory Spec2Isabelle
  imports Main "HOL-Library.Multiset"
begin

section \<open>Strings\<close>

text \<open>
  A string of the program is a sequence of UTF-16 code units. The model keeps the code
  units below 256 (the Latin-1 range, where the product database's tags, grades and store
  names and the component's own messages live), one \<^typ>\<open>char\<close> each. The string
  methods the component calls are modelled on that range: \<open>trim\<close> removes the white space
  and line terminators of the language standard, \<open>toLowerCase\<close> and \<open>toUpperCase\<close> follow
  the Unicode case mappings. The two code units whose capital lies outside the range
  (U+00B5 and U+00FF) are left as they are by \<open>toUpperCase\<close>.
\<close>

definition isWhiteSpace :: "char \<Rightarrow> bool" where
  "isWhiteSpace c =
     (c \<in> set [CHR 0x09, CHR 0x0A, CHR 0x0B, CHR 0x0C, CHR 0x0D, CHR 0x20, CHR 0xA0])"

definition trim :: "string \<Rightarrow> string" where
  "trim s = rev (dropWhile isWhiteSpace (rev (dropWhile isWhiteSpace s)))"

definition toLowerUnit :: "char \<Rightarrow> char" where
  "toLowerUnit c =
     (let n = (of_char c :: nat) in
      if (0x41 \<le> n \<and> n \<le> 0x5A) \<or> (0xC0 \<le> n \<and> n \<le> 0xDE \<and> n \<noteq> 0xD7)
      then char_of (n + 0x20) else c)"

definition toLowerCase :: "string \<Rightarrow> string" where
  "toLowerCase s = map toLowerUnit s"

definition toUpperUnit :: "char \<Rightarrow> string" where
  "toUpperUnit c =
     (let n = (of_char c :: nat) in
      if (0x61 \<le> n \<and> n \<le> 0x7A) \<or> (0xE0 \<le> n \<and> n \<le> 0xFE \<and> n \<noteq> 0xF7)
      then [char_of (n - 0x20)]
      else if n = 0xDF then ''SS'' else [c])"

definition toUpperCase :: "string \<Rightarrow> string" where
  "toUpperCase s = concat (map toUpperUnit s)"

text \<open>
  \<open>s.split(sep)\<close> for a separator of one code unit: the pieces between the separators,
  never an empty array (the empty string splits into one empty piece).
\<close>

fun split :: "char \<Rightarrow> string \<Rightarrow> string list" where
  "split sep [] = [[]]"
| "split sep (c # cs) =
     (if c = sep then [] # split sep cs
      else (case split sep cs of
              [] \<Rightarrow> [[c]]
            | piece # pieces \<Rightarrow> (c # piece) # pieces))"

text \<open>\<open>array.pop()\<close> read as a value: the last element, \<open>undefined\<close> on an empty array.\<close>

definition pop :: "'a list \<Rightarrow> 'a option" where
  "pop xs = (case xs of [] \<Rightarrow> None | _ # _ \<Rightarrow> Some (last xs))"

text \<open>\<open>s.includes(t)\<close>: \<open>t\<close> occurs in \<open>s\<close> as a contiguous run.\<close>

fun startsWith :: "string \<Rightarrow> string \<Rightarrow> bool" where
  "startsWith s [] = True"
| "startsWith [] (t # ts) = False"
| "startsWith (c # cs) (t # ts) = (c = t \<and> startsWith cs ts)"

fun includes_str :: "string \<Rightarrow> string \<Rightarrow> bool" where
  "includes_str [] t = (t = [])"
| "includes_str (c # cs) t = (startsWith (c # cs) t \<or> includes_str cs t)"

text \<open>\<open>array.join(sep)\<close>.\<close>

fun join :: "string \<Rightarrow> string list \<Rightarrow> string" where
  "join sep [] = []"
| "join sep [x] = x"
| "join sep (x # y # ys) = x @ sep @ join sep (y # ys)"

text \<open>\<open>array[i]\<close> for an index that may be negative: \<open>undefined\<close> out of range.\<close>

definition at_index :: "'a list \<Rightarrow> int \<Rightarrow> 'a option" where
  "at_index xs i = (if 0 \<le> i \<and> i < int (length xs) then Some (xs ! nat i) else None)"

section \<open>Products and the three checks (OpenFoodFactsSearch.tsx)\<close>

record ProductWithExtensions =
  code :: "string option"
  product_name :: "string option"
  product_name_de :: "string option"
  brands :: "string option"
  image_front_url :: "string option"
  image_front_small_url :: "string option"
  nutrition_grade_fr :: "string option"
  ecoscore_grade :: "string option"
  categories_tags :: "string list option"
  countries_tags :: "string list option"
  purchase_places_tags :: "string list option"
  stores_tags :: "string list option"
  stores :: "string option"

text \<open>A product object none of whose members is present.\<close>

definition emptyProduct :: ProductWithExtensions where
  "emptyProduct =
     \<lparr>code = None, product_name = None, product_name_de = None, brands = None,
      image_front_url = None, image_front_small_url = None, nutrition_grade_fr = None,
      ecoscore_grade = None, categories_tags = None, countries_tags = None,
      purchase_places_tags = None, stores_tags = None, stores = None\<rparr>"

definition SWISS_COUNTRY_TAGS :: "string list" where
  "SWISS_COUNTRY_TAGS = [''en:switzerland'', ''de:schweiz'', ''fr:suisse'', ''it:svizzera'']"

definition COOP_STORE_TAGS :: "string list" where
  "COOP_STORE_TAGS =
     [''coop'', ''coop-prix-garantie'', ''coop-pronto'', ''coop-city'', ''coop-to-go'',
      ''coop-restaurant'', ''coop-vitality'']"

definition normalizeGrade :: "string option \<Rightarrow> string" where
  "normalizeGrade grade = (case grade of None \<Rightarrow> [] | Some g \<Rightarrow> toUpperCase (trim g))"

definition INVALID_SCORE_VALUES :: "string set" where
  "INVALID_SCORE_VALUES = set [[], ''UNKNOWN'', ''NOT-APPLICABLE'', ''NOT_APPLICABLE'']"

definition isValidScore :: "string option \<Rightarrow> bool" where
  "isValidScore grade =
     (let normalized = normalizeGrade grade
      in length normalized > 0 \<and> normalized \<notin> INVALID_SCORE_VALUES)"

text \<open>The inner helper of \<open>isDistributedInSwitzerland\<close>: lower-case every entry, the empty
  list for a missing one.\<close>

definition normalized :: "string list option \<Rightarrow> string list" where
  "normalized values = (case values of None \<Rightarrow> [] | Some vs \<Rightarrow> map toLowerCase vs)"

definition isDistributedInSwitzerland :: "ProductWithExtensions \<Rightarrow> bool" where
  "isDistributedInSwitzerland item =
     (let countryMatches =
            list_ex (\<lambda>tag. tag \<in> set SWISS_COUNTRY_TAGS) (normalized (countries_tags item));
          purchaseMatches =
            list_ex (\<lambda>tag. tag = ''switzerland'') (normalized (purchase_places_tags item))
      in countryMatches \<or> purchaseMatches)"

text \<open>The callback given to \<open>stores_tags.some\<close>.\<close>

definition coopTag :: "string \<Rightarrow> bool" where
  "coopTag tag =
     (let normalizedTag = toLowerCase tag;
          cleanTag = (case pop (split CHR '':'' normalizedTag) of
                        None \<Rightarrow> normalizedTag | Some t \<Rightarrow> t)
      in cleanTag \<in> set COOP_STORE_TAGS)"

text \<open>\<open>tagMatches\<close> is \<open>undefined\<close> for a product without store tags, and \<open>undefined\<close> fails
  the test \<open>if (tagMatches)\<close> as \<open>false\<close> does.\<close>

definition isAvailableAtCoop :: "ProductWithExtensions \<Rightarrow> bool" where
  "isAvailableAtCoop item =
     (let tagMatches = map_option (list_ex coopTag) (stores_tags item)
      in if tagMatches = Some True then True
         else
           (let stores = (case stores item of None \<Rightarrow> [] | Some s \<Rightarrow> toLowerCase s)
            in if stores = [] then False
               else
                 (let normalizedNames =
                        filter (\<lambda>name. name \<noteq> []) (map trim (split CHR '','' stores))
                  in list_ex (\<lambda>name. includes_str name ''coop'') normalizedNames)))"

section \<open>The search component: state and product lookup\<close>

text \<open>The \<open>useState\<close> cells of \<open>OpenFoodFactsSearch\<close>, with their initial values.\<close>

record SearchState =
  barcode :: string
  product :: "ProductWithExtensions option"
  loading :: bool
  error :: "string option"
  lastScannedCode :: "string option"
  healthyAlternatives :: "ProductWithExtensions list"
  sustainableAlternatives :: "ProductWithExtensions list"
  healthyLoading :: bool
  sustainableLoading :: bool
  healthyError :: "string option"
  sustainableError :: "string option"

definition initialState :: SearchState where
  "initialState =
     \<lparr>barcode = [], product = None, loading = False, error = None, lastScannedCode = None,
      healthyAlternatives = [], sustainableAlternatives = [],
      healthyLoading = False, sustainableLoading = False,
      healthyError = None, sustainableError = None\<rparr>"

text \<open>
  What the database client hands back: a promise that is rejected (the call throws at the
  \<open>await\<close>) or fulfilled with a result object, whose \<open>error\<close> member is set or not and
  whose \<open>data\<close> member may be missing.
\<close>

datatype 'a ApiResult = ApiResult (result_error: bool) (result_data: "'a option")

datatype 'a Settled = Rejected | Fulfilled 'a

text \<open>The shape \<open>performLookup\<close> reads from a lookup's data:
  \<open>{ status?: number; product?: ProductWithExtensions }\<close>.\<close>

datatype LookupData =
  LookupData (status: "int option") (data_product: "ProductWithExtensions option")

text \<open>The shape read from a search's data: its \<open>products\<close> member.\<close>

datatype SearchResult = SearchResult (products: "ProductWithExtensions list option")

text \<open>The messages of \<open>performLookup\<close>.\<close>

definition invalidCodeMessage :: string where
  "invalidCodeMessage = ''Bitte geben Sie eine g'' @ [CHR 0xFC] @ ''ltige Artikelnummer ein.''"

definition communicationMessage :: string where
  "communicationMessage = ''Fehler bei der Kommunikation mit der Open Food Facts API.''"

definition notFoundMessage :: "string \<Rightarrow> string" where
  "notFoundMessage trimmed =
     ''Kein Produkt mit der Artikelnummer '' @ [CHR 0x22] @ trimmed @ [CHR 0x22] @ '' gefunden.''"

text \<open>
  \<open>performLookup\<close> up to its \<open>await\<close>, on the argument \<open>input\<close> (the source's \<open>code\<close>):
  the state it leaves and the code it asks the client for, \<open>None\<close> when it returns before
  calling the client.
\<close>

definition performLookup_begin :: "string \<Rightarrow> SearchState \<Rightarrow> SearchState \<times> string option" where
  "performLookup_begin input st =
     (let trimmed = trim input
      in if trimmed = [] then (st\<lparr>error := Some invalidCodeMessage, product := None\<rparr>, None)
         else (st\<lparr>loading := True, error := None, product := None,
                   healthyAlternatives := [], sustainableAlternatives := [],
                   healthyError := None, sustainableError := None\<rparr>,
               Some trimmed))"

text \<open>The test \<open>data?.product && (data.status === 1 || data.status === undefined)\<close>: the
  product it lets through.\<close>

definition usableProduct :: "LookupData option \<Rightarrow> ProductWithExtensions option" where
  "usableProduct data =
     (case data of
        None \<Rightarrow> None
      | Some d \<Rightarrow>
          (case data_product d of
             None \<Rightarrow> None
           | Some p \<Rightarrow> if status d = Some 1 \<or> status d = None then Some p else None))"

text \<open>\<open>performLookup\<close> from the \<open>await\<close> on: the \<open>try\<close> body or the \<open>catch\<close>, then the
  \<open>finally\<close>.\<close>

definition performLookup_resume ::
  "string \<Rightarrow> LookupData ApiResult Settled \<Rightarrow> SearchState \<Rightarrow> SearchState" where
  "performLookup_resume trimmed settled st =
     (let st' =
        (case settled of
           Rejected \<Rightarrow> st\<lparr>error := Some communicationMessage\<rparr>
         | Fulfilled result \<Rightarrow>
             if result_error result then st\<lparr>error := Some communicationMessage\<rparr>
             else
               (case usableProduct (result_data result) of
                  Some p \<Rightarrow> st\<lparr>product := Some p, barcode := []\<rparr>
                | None \<Rightarrow> st\<lparr>error := Some (notFoundMessage trimmed)\<rparr>))
      in st'\<lparr>loading := False\<rparr>)"

text \<open>A whole run of \<open>performLookup\<close> with nothing in between: \<open>client\<close> is the answer of
  \<open>getProductV2\<close> to a code.\<close>

definition performLookup ::
  "string \<Rightarrow> (string \<Rightarrow> LookupData ApiResult Settled) \<Rightarrow> SearchState \<Rightarrow> SearchState" where
  "performLookup input client st =
     (case performLookup_begin input st of
        (st', None) \<Rightarrow> st'
      | (st', Some trimmed) \<Rightarrow> performLookup_resume trimmed (client trimmed) st')"

text \<open>Submitting the form looks up the text of the input field.\<close>

definition fetchProduct ::
  "(string \<Rightarrow> LookupData ApiResult Settled) \<Rightarrow> SearchState \<Rightarrow> SearchState" where
  "fetchProduct client st = performLookup (barcode st) client st"

text \<open>The end-to-end example: the product \<open>{code: "737628064502", product_name: "Test"}\<close>
  and a client that answers every lookup with it, \<open>status\<close> 1.\<close>

definition mockProduct :: ProductWithExtensions where
  "mockProduct = emptyProduct\<lparr>code := Some ''737628064502'', product_name := Some ''Test''\<rparr>"

definition mockClient :: "string \<Rightarrow> LookupData ApiResult Settled" where
  "mockClient requested = Fulfilled (ApiResult False (Some (LookupData (Some 1) (Some mockProduct))))"

section \<open>The suggestion pipeline\<close>

definition missingCategoriesMessage :: string where
  "missingCategoriesMessage = ''F'' @ [CHR 0xFC] @ ''r dieses Produkt fehlen Kategorien-Tags.''"

definition healthyFailedMessage :: string where
  "healthyFailedMessage = ''Fehler beim Laden gesunder Alternativen. Bitte erneut versuchen.''"

definition sustainableFailedMessage :: string where
  "sustainableFailedMessage =
     ''Fehler beim Laden nachhaltiger Alternativen. Bitte erneut versuchen.''"

definition alternativesFailedMessage :: string where
  "alternativesFailedMessage =
     ''Alternativen konnten nicht geladen werden. Bitte sp'' @ [CHR 0xE4] @
     ''ter erneut versuchen.''"

text \<open>\<open>product.categories_tags?.[product.categories_tags.length - 1] ??
  product.categories_tags?.[0]\<close>\<close>

definition categoryTag :: "ProductWithExtensions \<Rightarrow> string option" where
  "categoryTag p =
     (case (case categories_tags p of
              None \<Rightarrow> None
            | Some tags \<Rightarrow> at_index tags (int (length tags) - 1)) of
        Some tag \<Rightarrow> Some tag
      | None \<Rightarrow> (case categories_tags p of None \<Rightarrow> None | Some tags \<Rightarrow> at_index tags 0))"

record SearchQueryV2 =
  q_categories_tags :: string
  q_countries_tags :: string
  q_stores_tags :: string
  q_page_size :: nat
  q_fields :: string
  q_nutrition_grades_tags :: "string option"
  q_ecoscore_grade :: "string option"
  q_sort_by :: string

definition fields :: string where
  "fields = join '',''
     [''code'', ''product_name'', ''product_name_de'', ''brands'', ''image_front_small_url'',
      ''image_front_url'', ''nutrition_grade_fr'', ''ecoscore_grade'', ''categories_tags'',
      ''countries_tags'', ''purchase_places_tags'', ''stores_tags'', ''stores'']"

definition healthyQuery :: "string \<Rightarrow> SearchQueryV2" where
  "healthyQuery tag =
     \<lparr>q_categories_tags = tag,
      q_countries_tags = join ''|'' SWISS_COUNTRY_TAGS,
      q_stores_tags = join ''|'' COOP_STORE_TAGS,
      q_page_size = 5, q_fields = fields,
      q_nutrition_grades_tags = Some ''a|b'', q_ecoscore_grade = None,
      q_sort_by = ''nutriscore_score''\<rparr>"

definition sustainableQuery :: "string \<Rightarrow> SearchQueryV2" where
  "sustainableQuery tag =
     \<lparr>q_categories_tags = tag,
      q_countries_tags = join ''|'' SWISS_COUNTRY_TAGS,
      q_stores_tags = join ''|'' COOP_STORE_TAGS,
      q_page_size = 5, q_fields = fields,
      q_nutrition_grades_tags = None, q_ecoscore_grade = Some ''a|b'',
      q_sort_by = ''ecoscore_score''\<rparr>"

text \<open>
  The body of the effect on \<open>product\<close>, up to the two \<open>client.search\<close> calls that
  \<open>fetchAlternatives\<close> makes before its \<open>await\<close>: the state it leaves and, when the searches
  are issued, the product they are for and the two queries. A tag that is missing or the
  empty string fails the test \<open>if (!categoryTag)\<close>.
\<close>

definition productEffect ::
  "SearchState \<Rightarrow>
   SearchState \<times> (ProductWithExtensions \<times> SearchQueryV2 \<times> SearchQueryV2) option" where
  "productEffect st =
     (case product st of
        None \<Rightarrow>
          (st\<lparr>healthyAlternatives := [], sustainableAlternatives := [],
              healthyError := None, sustainableError := None,
              healthyLoading := False, sustainableLoading := False\<rparr>, None)
      | Some p \<Rightarrow>
          (let tag = categoryTag p
           in if tag = None \<or> tag = Some []
              then (st\<lparr>healthyAlternatives := [], sustainableAlternatives := [],
                        healthyError := Some missingCategoriesMessage,
                        sustainableError := Some missingCategoriesMessage,
                        healthyLoading := False, sustainableLoading := False\<rparr>, None)
              else (st\<lparr>healthyLoading := True, sustainableLoading := True,
                        healthyError := None, sustainableError := None\<rparr>,
                    Some (p, healthyQuery (the tag), sustainableQuery (the tag)))))"

text \<open>\<open>data?.products ?? []\<close>\<close>

definition productsOf :: "SearchResult ApiResult \<Rightarrow> ProductWithExtensions list" where
  "productsOf result =
     (case result_data result of
        None \<Rightarrow> []
      | Some d \<Rightarrow> (case products d of None \<Rightarrow> [] | Some ps \<Rightarrow> ps))"

text \<open>
  \<open>fetchAlternatives\<close> from its \<open>await\<close> on. \<open>isActive\<close> is the flag of the effect run that
  started it, as it stands when the two searches settle, and \<open>p\<close> is the product of that
  run. The \<open>finally\<close> block runs on every path.
\<close>

definition fetchAlternatives_resume ::
  "bool \<Rightarrow> ProductWithExtensions \<Rightarrow>
   (SearchResult ApiResult \<times> SearchResult ApiResult) Settled \<Rightarrow> SearchState \<Rightarrow> SearchState" where
  "fetchAlternatives_resume isActive p settled st =
     (let st' =
        (case settled of
           Fulfilled (healthyResult, sustainableResult) \<Rightarrow>
             if \<not> isActive then st
             else
               (let st1 =
                      (if result_error healthyResult
                       then st\<lparr>healthyAlternatives := [],
                               healthyError := Some healthyFailedMessage\<rparr>
                       else st\<lparr>healthyAlternatives :=
                               filter (\<lambda>item. code item \<noteq> code p \<and>
                                         isDistributedInSwitzerland item \<and>
                                         isAvailableAtCoop item \<and>
                                         isValidScore (nutrition_grade_fr item))
                                 (productsOf healthyResult)\<rparr>)
                in if result_error sustainableResult
                   then st1\<lparr>sustainableAlternatives := [],
                            sustainableError := Some sustainableFailedMessage\<rparr>
                   else st1\<lparr>sustainableAlternatives :=
                            filter (\<lambda>item. code item \<noteq> code p \<and>
                                      isDistributedInSwitzerland item \<and>
                                      isAvailableAtCoop item \<and>
                                      isValidScore (ecoscore_grade item))
                              (productsOf sustainableResult)\<rparr>)
         | Rejected \<Rightarrow>
             if \<not> isActive then st
             else st\<lparr>healthyAlternatives := [], sustainableAlternatives := [],
                     healthyError := Some alternativesFailedMessage,
                     sustainableError := Some alternativesFailedMessage\<rparr>)
      in if isActive then st'\<lparr>healthyLoading := False, sustainableLoading := False\<rparr> else st')"

section \<open>Effect runs and searches in flight\<close>

text \<open>
  \<open>handleScan\<close> up to the \<open>await\<close> of the lookup it starts; a scan that trims to nothing
  does nothing.
\<close>

definition handleScan_begin :: "string \<Rightarrow> SearchState \<Rightarrow> SearchState \<times> string option" where
  "handleScan_begin input st =
     (let trimmed = trim input
      in if trimmed = [] then (st, None)
         else performLookup_begin trimmed (st\<lparr>lastScannedCode := Some trimmed, barcode := trimmed\<rparr>))"

text \<open>
  Each run of the effect that reaches \<open>fetchAlternatives\<close> owns one \<open>isActive\<close> variable,
  which the closure of its \<open>fetchAlternatives\<close> reads when the searches settle and which
  its cleanup function clears. The runtime keeps them in the order the runs happened,
  each with the product of its run; \<open>cleanup\<close> is the cleanup function the last run
  returned, if it returned one.

  The effect depends on \<open>product\<close> and runs again when the component is rendered with a
  \<open>product\<close> that is another object than the one of its last run. Every successful lookup
  delivers a new object, so the objects are told apart by a number: \<open>shown\<close> is the
  object in the \<open>product\<close> cell (\<open>None\<close> for null), \<open>created\<close> counts the objects
  delivered so far, and \<open>deps\<close> is the object the effect last ran with. A handler only
  writes the cells; the cleanup of the last run and the next run of the effect happen
  when the framework renders again, which is an event of its own. Other events can come
  between the two.
\<close>

record Fetch =
  isActive :: bool
  closureProduct :: ProductWithExtensions

record Runtime =
  ui :: SearchState
  shown :: "nat option"
  created :: nat
  deps :: "nat option"
  fetches :: "Fetch list"
  cleanup :: "nat option"

text \<open>The component after mounting: the effect has run once, with no product.\<close>

definition initialRuntime :: Runtime where
  "initialRuntime =
     \<lparr>ui = initialState, shown = None, created = 0, deps = None, fetches = [], cleanup = None\<rparr>"

text \<open>The cleanup function \<open>() => { isActive = false; }\<close> of the registered run.\<close>

definition runCleanup :: "Runtime \<Rightarrow> Runtime" where
  "runCleanup rt =
     (case cleanup rt of
        None \<Rightarrow> rt
      | Some i \<Rightarrow>
          rt\<lparr>fetches := (fetches rt)[i := (fetches rt ! i)\<lparr>isActive := False\<rparr>],
             cleanup := None\<rparr>)"

text \<open>The cleanup, then the body of the effect; a body that reaches \<open>fetchAlternatives\<close>
  adds a run with its flag set and registers its cleanup.\<close>

definition runEffect :: "Runtime \<Rightarrow> Runtime" where
  "runEffect rt =
     (let rt1 = runCleanup rt
      in case productEffect (ui rt1) of
           (st, None) \<Rightarrow> rt1\<lparr>ui := st\<rparr>
         | (st, Some (p, _, _)) \<Rightarrow>
             rt1\<lparr>ui := st,
                 fetches := fetches rt1 @ [\<lparr>isActive = True, closureProduct = p\<rparr>],
                 cleanup := Some (length (fetches rt1))\<rparr>)"

text \<open>The framework renders again: the effect runs if \<open>product\<close> is another object than at
  its last run.\<close>

definition render :: "Runtime \<Rightarrow> Runtime" where
  "render rt = (if shown rt = deps rt then rt else (runEffect rt)\<lparr>deps := shown rt\<rparr>)"

text \<open>
  What can happen to the mounted component, one event at a time (handlers and promise
  continuations run to completion): the user types into the field, submits the form, the
  scanner reports a code, a lookup settles, the pair of searches of the \<open>i\<close>-th run
  settles, the framework renders again. A lookup may settle at any time here, with any
  answer, and a render may come at any time.
\<close>

datatype Event =
  BarcodeTyped string
| FormSubmitted
| Scanned string
| LookupSettles string "LookupData ApiResult Settled"
| SearchesSettle nat "(SearchResult ApiResult \<times> SearchResult ApiResult) Settled"
| Rendered

text \<open>The state cells after the event's own code. The searches of a run that never
  happened cannot settle.\<close>

fun handle :: "Event \<Rightarrow> Runtime \<Rightarrow> SearchState" where
  "handle (BarcodeTyped s) rt = (ui rt)\<lparr>barcode := s\<rparr>"
| "handle FormSubmitted rt = fst (performLookup_begin (barcode (ui rt)) (ui rt))"
| "handle (Scanned input) rt = fst (handleScan_begin input (ui rt))"
| "handle (LookupSettles trimmed settled) rt = performLookup_resume trimmed settled (ui rt)"
| "handle (SearchesSettle i settled) rt =
     (if i < length (fetches rt)
      then fetchAlternatives_resume (isActive (fetches rt ! i))
             (closureProduct (fetches rt ! i)) settled (ui rt)
      else ui rt)"
| "handle Rendered rt = ui rt"

text \<open>
  What the event's code does to the \<open>product\<close> cell: nothing, \<open>setProduct(null)\<close>, or
  \<open>setProduct(data.product)\<close> with the object the lookup delivered.
\<close>

datatype ProductWrite = Untouched | SetNull | SetDelivered

fun productWrite :: "Event \<Rightarrow> ProductWrite" where
  "productWrite (BarcodeTyped s) = Untouched"
| "productWrite FormSubmitted = SetNull"
| "productWrite (Scanned input) = (if trim input = [] then Untouched else SetNull)"
| "productWrite (LookupSettles trimmed settled) =
     (case settled of
        Rejected \<Rightarrow> Untouched
      | Fulfilled result \<Rightarrow>
          if \<not> result_error result \<and> usableProduct (result_data result) \<noteq> None
          then SetDelivered else Untouched)"
| "productWrite (SearchesSettle i settled) = Untouched"
| "productWrite Rendered = Untouched"

definition fire :: "Event \<Rightarrow> Runtime \<Rightarrow> Runtime" where
  "fire ev rt =
     (case ev of
        Rendered \<Rightarrow> render rt
      | _ \<Rightarrow>
          (let rt' = rt\<lparr>ui := handle ev rt\<rparr>
           in case productWrite ev of
                Untouched \<Rightarrow> rt'
              | SetNull \<Rightarrow> rt'\<lparr>shown := None\<rparr>
              | SetDelivered \<Rightarrow> rt'\<lparr>shown := Some (created rt), created := Suc (created rt)\<rparr>))"

fun run :: "Event list \<Rightarrow> Runtime \<Rightarrow> Runtime" where
  "run [] rt = rt"
| "run (ev # evs) rt = run evs (fire ev rt)"

text \<open>
  A run of the effect is superseded once its flag is cleared. In a well-formed runtime
  the only flag that can be set belongs to the run whose cleanup function is registered,
  and that run is the last one.
\<close>

definition stale :: "Runtime \<Rightarrow> nat \<Rightarrow> bool" where
  "stale rt i = (i < length (fetches rt) \<and> \<not> isActive (fetches rt ! i))"

definition wellFormed :: "Runtime \<Rightarrow> bool" where
  "wellFormed rt =
     ((\<forall>i < length (fetches rt). isActive (fetches rt ! i) \<longrightarrow> cleanup rt = Some i)
      \<and> (\<forall>i. cleanup rt = Some i \<longrightarrow> Suc i = length (fetches rt)))"

text \<open>
  An example session: the user types a code and submits it, the lookup answers with a
  product that has one category tag, and the framework renders it, so that the effect
  starts its searches. \<open>alternative\<close> is a product that passes every filter of the
  pipeline; \<open>sameCode\<close> differs from it in the code, which is the shown product's;
  \<open>abroad\<close> differs from it in the country.
\<close>

definition snack :: ProductWithExtensions where
  "snack = emptyProduct\<lparr>code := Some ''1'', categories_tags := Some [''en:snacks'']\<rparr>"

definition snackShown :: "Event list" where
  "snackShown =
     [BarcodeTyped ''1'', FormSubmitted, Rendered,
      LookupSettles ''1'' (Fulfilled (ApiResult False (Some (LookupData (Some 1) (Some snack))))),
      Rendered]"

definition alternative :: ProductWithExtensions where
  "alternative =
     emptyProduct\<lparr>code := Some ''7'', nutrition_grade_fr := Some ''a'',
                   ecoscore_grade := Some ''b'', countries_tags := Some [''en:switzerland''],
                   stores_tags := Some [''coop'']\<rparr>"

definition sameCode :: ProductWithExtensions where
  "sameCode = alternative\<lparr>code := Some ''1''\<rparr>"

definition abroad :: ProductWithExtensions where
  "abroad = alternative\<lparr>code := Some ''8'', countries_tags := Some [''en:france'']\<rparr>"

text \<open>Both searches answer with the same three products.\<close>

definition searchesAnswer :: "(SearchResult ApiResult \<times> SearchResult ApiResult) Settled" where
  "searchesAnswer =
     Fulfilled (ApiResult False (Some (SearchResult (Some [sameCode, alternative, abroad]))),
                ApiResult False (Some (SearchResult (Some [sameCode, alternative, abroad]))))"

section \<open>The scanner (BarcodeScanner.tsx)\<close>

record CameraOption =
  label :: string
  deviceId :: string

text \<open>The state cells of \<open>BarcodeScanner\<close>; \<open>scannerError\<close> is its \<open>error\<close>.\<close>

record ScannerState =
  cameras :: "CameraOption list"
  selectedDeviceId :: "string option"
  isScanning :: bool
  scannerError :: "string option"

text \<open>What the decoder passes as \<open>err\<close>: the library's exception for a frame without a
  barcode, or something else.\<close>

datatype ScanError = NotFoundException | ChecksumException | FormatException | OtherError

definition scanFailedMessage :: string where
  "scanFailedMessage = ''Scan fehlgeschlagen. Bitte erneut versuchen.''"

definition stopScanning :: "ScannerState \<Rightarrow> ScannerState" where
  "stopScanning st = st\<lparr>isScanning := False\<rparr>"

text \<open>
  The callback \<open>startScanning\<close> gives to \<open>decodeFromVideoDevice\<close>. \<open>result\<close> is the text of
  the decoder's result when there is a result; the second component is the code handed
  to \<open>onScan\<close>, if any.
\<close>

definition decodeCallback ::
  "string option \<Rightarrow> ScanError option \<Rightarrow> ScannerState \<Rightarrow> ScannerState \<times> string option" where
  "decodeCallback result err st =
     (let (st1, scanned) =
            (case result of
               None \<Rightarrow> (st, None)
             | Some text \<Rightarrow> if text \<noteq> [] then (stopScanning st, Some text) else (st, None));
          st2 =
            (case err of
               None \<Rightarrow> st1
             | Some e \<Rightarrow>
                 if e \<noteq> NotFoundException
                 then st1\<lparr>scannerError := Some scanFailedMessage\<rparr> else st1)
      in (st2, scanned))"

section \<open>Properties\<close>

lemma toUpperCase_Nil: "toUpperCase [] = []"
  by (simp add: toUpperCase_def)

lemma trim_Nil: "trim [] = []"
  by (simp add: trim_def)

lemma list_ex_normalized:
  "list_ex P (normalized values) =
     (\<exists>vs. values = Some vs \<and> (\<exists>tag \<in> set vs. P (toLowerCase tag)))"
  by (cases "values") (auto simp: normalized_def list_ex_iff)

lemma isDistributedInSwitzerland_iff:
  "isDistributedInSwitzerland item =
     ((\<exists>tags. countries_tags item = Some tags \<and>
         (\<exists>tag \<in> set tags. toLowerCase tag \<in>
            {''en:switzerland'', ''de:schweiz'', ''fr:suisse'', ''it:svizzera''}))
      \<or> (\<exists>tags. purchase_places_tags item = Some tags \<and>
         (\<exists>tag \<in> set tags. toLowerCase tag = ''switzerland'')))"
  unfolding isDistributedInSwitzerland_def Let_def list_ex_normalized SWISS_COUNTRY_TAGS_def
  by simp

lemma isDistributedInSwitzerland_set:
  assumes "set cs = set cs'" and "set ps = set ps'"
  shows "isDistributedInSwitzerland (item\<lparr>countries_tags := Some cs, purchase_places_tags := Some ps\<rparr>)
       = isDistributedInSwitzerland (item\<lparr>countries_tags := Some cs', purchase_places_tags := Some ps'\<rparr>)"
  using assms by (simp add: isDistributedInSwitzerland_iff)

lemma lower_schweiz: "toLowerCase ''de:schweiz'' = ''de:schweiz''" by code_simp
lemma lower_france: "toLowerCase ''en:france'' = ''en:france''" by code_simp

lemma split_not_Nil: "split sep s \<noteq> []"
  by (induction s) (auto split: list.splits)

lemma split_join: "join [sep] (split sep s) = s"
proof (induction s)
  case Nil show ?case by simp
next
  case (Cons c cs)
  obtain p ps where ps: "split sep cs = p # ps" using split_not_Nil[of sep cs] by (cases "split sep cs") auto
  with Cons show ?case by (cases ps) auto
qed

lemma split_no_sep: "piece \<in> set (split sep s) \<Longrightarrow> sep \<notin> set piece"
  by (induction s arbitrary: piece) (auto split: list.splits if_splits)

lemma split_without_sep: "sep \<notin> set s \<Longrightarrow> split sep s = [s]"
  by (induction s) auto

lemma last_split: "last (split sep s) = rev (takeWhile (\<lambda>c. c \<noteq> sep) (rev s))"
proof (induction s)
  case Nil show ?case by simp
next
  case (Cons c cs)
  obtain p ps where ps: "split sep cs = p # ps" using split_not_Nil[of sep cs] by (cases "split sep cs") auto
  show ?case
  proof (cases "sep \<in> set cs")
    case True
    then have "ps \<noteq> []" using ps split_join[of sep cs] split_no_sep[of p sep cs]
      by (cases ps) auto
    with ps Cons True show ?thesis by (auto simp: takeWhile_append1)
  next
    case False
    then have all: "\<forall>x \<in> set (rev cs). x \<noteq> sep" by auto
    from False have one: "split sep cs = [cs]" by (rule split_without_sep)
    show ?thesis
    proof (cases "c = sep")
      case True
      have "takeWhile (\<lambda>c. c \<noteq> sep) (rev cs @ [sep]) = rev cs @ takeWhile (\<lambda>c. c \<noteq> sep) [sep]"
        by (rule takeWhile_append2) (use all in blast)
      with True one show ?thesis by simp
    next
      case False
      with all have "\<forall>x \<in> set (rev cs @ [c]). x \<noteq> sep" by auto
      then have tw: "takeWhile (\<lambda>c. c \<noteq> sep) (rev cs @ [c]) = rev cs @ [c]"
        by (simp only: takeWhile_eq_all_conv)
      have "last (split sep (c # cs)) = c # cs" using False one by simp
      also have "\<dots> = rev (rev cs @ [c])" by simp
      also have "\<dots> = rev (takeWhile (\<lambda>c. c \<noteq> sep) (rev cs @ [c]))" by (simp only: tw)
      also have "\<dots> = rev (takeWhile (\<lambda>c. c \<noteq> sep) (rev (c # cs)))" by simp
      finally show ?thesis .
    qed
  qed
qed

lemma startsWith_iff: "startsWith s t = (\<exists>suf. s = t @ suf)"
  by (induction s t rule: startsWith.induct) auto

lemma includes_str_iff: "includes_str s t = (\<exists>pre suf. s = pre @ t @ suf)"
proof (induction s)
  case Nil show ?case by simp
next
  case (Cons c cs)
  show ?case
  proof
    assume "includes_str (c # cs) t"
    then consider "startsWith (c # cs) t" | "includes_str cs t" by auto
    then show "\<exists>pre suf. c # cs = pre @ t @ suf"
    proof cases
      case 1
      then obtain suf where "c # cs = [] @ t @ suf" by (auto simp: startsWith_iff)
      then show ?thesis by blast
    next
      case 2
      then obtain pre suf where "cs = pre @ t @ suf" using Cons.IH by blast
      then have "c # cs = (c # pre) @ t @ suf" by simp
      then show ?thesis by blast
    qed
  next
    assume "\<exists>pre suf. c # cs = pre @ t @ suf"
    then obtain pre suf where e: "c # cs = pre @ t @ suf" by blast
    show "includes_str (c # cs) t"
    proof (cases pre)
      case Nil
      with e have "startsWith (c # cs) t" by (simp add: startsWith_iff)
      then show ?thesis by simp
    next
      case (Cons a as)
      with e have "cs = as @ t @ suf" by simp
      then have "includes_str cs t" using Cons.IH by blast
      then show ?thesis by simp
    qed
  qed
qed


lemma coopTag_iff:
  "coopTag tag =
     (rev (takeWhile (\<lambda>c. c \<noteq> CHR '':'') (rev (toLowerCase tag))) \<in>
        {''coop'', ''coop-prix-garantie'', ''coop-pronto'', ''coop-city'', ''coop-to-go'',
         ''coop-restaurant'', ''coop-vitality''})"
proof -
  obtain p ps where "split CHR '':'' (toLowerCase tag) = p # ps"
    using split_not_Nil[of "CHR '':''" "toLowerCase tag"] by (cases "split CHR '':'' (toLowerCase tag)") auto
  then have "pop (split CHR '':'' (toLowerCase tag)) = Some (last (split CHR '':'' (toLowerCase tag)))"
    by (simp add: pop_def)
  then show ?thesis
    by (simp add: coopTag_def Let_def last_split COOP_STORE_TAGS_def)
qed

lemma isAvailableAtCoop_iff:
  "isAvailableAtCoop item =
     ((\<exists>tags. stores_tags item = Some tags \<and>
         (\<exists>tag \<in> set tags.
            rev (takeWhile (\<lambda>c. c \<noteq> CHR '':'') (rev (toLowerCase tag))) \<in>
              {''coop'', ''coop-prix-garantie'', ''coop-pronto'', ''coop-city'', ''coop-to-go'',
               ''coop-restaurant'', ''coop-vitality''}))
      \<or> (\<exists>s. stores item = Some s \<and>
         (\<exists>name \<in> set (split CHR '','' (toLowerCase s)).
            trim name \<noteq> [] \<and> (\<exists>pre suf. trim name = pre @ ''coop'' @ suf))))"
proof -
  let ?T = "\<exists>tags. stores_tags item = Some tags \<and> (\<exists>tag \<in> set tags. coopTag tag)"
  let ?F = "\<exists>s. stores item = Some s \<and>
         (\<exists>name \<in> set (split CHR '','' (toLowerCase s)).
            trim name \<noteq> [] \<and> (\<exists>pre suf. trim name = pre @ ''coop'' @ suf))"
  have tags: "(map_option (list_ex coopTag) (stores_tags item) = Some True) = ?T"
    by (cases "stores_tags item") (auto simp: list_ex_iff)
  have fallback: "(let stores = (case stores item of None \<Rightarrow> [] | Some s \<Rightarrow> toLowerCase s)
            in if stores = [] then False
               else
                 (let normalizedNames =
                        filter (\<lambda>name. name \<noteq> []) (map trim (split CHR '','' stores))
                  in list_ex (\<lambda>name. includes_str name ''coop'') normalizedNames)) = ?F"
  proof (cases "stores item")
    case None then show ?thesis by simp
  next
    case (Some s)
    show ?thesis
    proof (cases "toLowerCase s = []")
      case True with Some show ?thesis by (simp add: trim_Nil)
    next
      case False with Some show ?thesis
        by (auto simp: Let_def list_ex_iff includes_str_iff)
    qed
  qed
  have "isAvailableAtCoop item = (?T \<or> ?F)"
  proof (cases "map_option (list_ex coopTag) (stores_tags item) = Some True")
    case True
    with tags have ?T by simp
    moreover from True have "isAvailableAtCoop item" by (simp add: isAvailableAtCoop_def)
    ultimately show ?thesis by simp
  next
    case False
    with tags have "\<not> ?T" by simp
    moreover have "isAvailableAtCoop item = ?F"
      apply (simp only: isAvailableAtCoop_def Let_def False if_False)
      apply (rule fallback[unfolded Let_def])
      done
    ultimately show ?thesis by blast
  qed
  then show ?thesis by (simp only: coopTag_iff)
qed

lemma isAvailableAtCoop_by_tag:
  "stores_tags item = Some tags \<Longrightarrow> list_ex coopTag tags \<Longrightarrow> isAvailableAtCoop item"
  by (simp add: isAvailableAtCoop_def)

lemma isAvailableAtCoop_fallback:
  "stores_tags item = None \<Longrightarrow> stores item = Some s \<Longrightarrow>
   isAvailableAtCoop item =
     list_ex (\<lambda>name. includes_str name ''coop'')
       (filter (\<lambda>name. name \<noteq> []) (map trim (split CHR '','' (toLowerCase s))))"
  by (simp add: isAvailableAtCoop_def Let_def trim_Nil)

text \<open>
  C3. For every optional grade, a missing one read as the empty string,
  \<open>isValidScore\<close> holds exactly when the grade, trimmed and then upper-cased, is not empty
  and is none of \<open>UNKNOWN\<close>, \<open>NOT-APPLICABLE\<close>, \<open>NOT_APPLICABLE\<close>. The empty string,
  \<open>unknown\<close>, \<open>Not-Applicable\<close> and \<open>NOT_APPLICABLE\<close> are invalid; \<open>a\<close> and \<open>E\<close> are
  valid. The check is a function of its argument alone.
\<close>

theorem isValidScore_spec:
  "isValidScore grade =
     (let n = toUpperCase (trim (case grade of None \<Rightarrow> [] | Some g \<Rightarrow> g))
      in n \<noteq> [] \<and> n \<noteq> ''UNKNOWN'' \<and> n \<noteq> ''NOT-APPLICABLE'' \<and> n \<noteq> ''NOT_APPLICABLE'')
   \<and> isValidScore None = False
   \<and> isValidScore (Some []) = False
   \<and> isValidScore (Some ''unknown'') = False
   \<and> isValidScore (Some ''Not-Applicable'') = False
   \<and> isValidScore (Some ''NOT_APPLICABLE'') = False
   \<and> isValidScore (Some ''a'') = True
   \<and> isValidScore (Some ''E'') = True"
proof -
  have general: "isValidScore grade =
     (let n = toUpperCase (trim (case grade of None \<Rightarrow> [] | Some g \<Rightarrow> g))
      in n \<noteq> [] \<and> n \<noteq> ''UNKNOWN'' \<and> n \<noteq> ''NOT-APPLICABLE'' \<and> n \<noteq> ''NOT_APPLICABLE'')"
    by (cases grade)
       (auto simp: isValidScore_def normalizeGrade_def INVALID_SCORE_VALUES_def Let_def
                   trim_Nil toUpperCase_Nil)
  have e0: "isValidScore None = False" by code_simp
  have e1: "isValidScore (Some []) = False" by code_simp
  have e2: "isValidScore (Some ''unknown'') = False" by code_simp
  have e3: "isValidScore (Some ''Not-Applicable'') = False" by code_simp
  have e4: "isValidScore (Some ''NOT_APPLICABLE'') = False" by code_simp
  have e5: "isValidScore (Some ''a'') = True" by code_simp
  have e6: "isValidScore (Some ''E'') = True" by code_simp
  from general e0 e1 e2 e3 e4 e5 e6 show ?thesis by blast
qed

text \<open>
  C5. \<open>isDistributedInSwitzerland\<close> holds exactly when some country tag, lower-cased, is
  one of \<open>en:switzerland\<close>, \<open>de:schweiz\<close>, \<open>fr:suisse\<close>, \<open>it:svizzera\<close>, or some
  purchase-place tag, lower-cased, is \<open>switzerland\<close>. Permuting either tag list does not
  change the result. A product with the country tag \<open>de:schweiz\<close> passes; one with the
  only country tag \<open>en:france\<close> and no matching purchase place does not.
\<close>

theorem isDistributedInSwitzerland_spec:
  "isDistributedInSwitzerland item =
     ((\<exists>tags. countries_tags item = Some tags \<and>
         (\<exists>tag \<in> set tags. toLowerCase tag \<in>
            {''en:switzerland'', ''de:schweiz'', ''fr:suisse'', ''it:svizzera''}))
      \<or> (\<exists>tags. purchase_places_tags item = Some tags \<and>
         (\<exists>tag \<in> set tags. toLowerCase tag = ''switzerland'')))
   \<and> (mset cs = mset cs' \<and> mset ps = mset ps' \<longrightarrow>
        isDistributedInSwitzerland
          (item\<lparr>countries_tags := Some cs, purchase_places_tags := Some ps\<rparr>) =
        isDistributedInSwitzerland
          (item\<lparr>countries_tags := Some cs', purchase_places_tags := Some ps'\<rparr>))
   \<and> isDistributedInSwitzerland (item\<lparr>countries_tags := Some [''de:schweiz'']\<rparr>)
   \<and> ((\<forall>tag \<in> set qs. toLowerCase tag \<noteq> ''switzerland'') \<longrightarrow>
        \<not> isDistributedInSwitzerland
            (item\<lparr>countries_tags := Some [''en:france''], purchase_places_tags := Some qs\<rparr>))
   \<and> \<not> isDistributedInSwitzerland
         (item\<lparr>countries_tags := Some [''en:france''], purchase_places_tags := None\<rparr>)"
proof -
  have perm: "mset cs = mset cs' \<and> mset ps = mset ps' \<longrightarrow>
        isDistributedInSwitzerland
          (item\<lparr>countries_tags := Some cs, purchase_places_tags := Some ps\<rparr>) =
        isDistributedInSwitzerland
          (item\<lparr>countries_tags := Some cs', purchase_places_tags := Some ps'\<rparr>)"
    using isDistributedInSwitzerland_set[of cs cs' ps ps' item] by (auto dest: mset_eq_setD)
  have schweiz: "isDistributedInSwitzerland (item\<lparr>countries_tags := Some [''de:schweiz'']\<rparr>)"
    by (simp add: isDistributedInSwitzerland_iff lower_schweiz)
  have france: "(\<forall>tag \<in> set qs. toLowerCase tag \<noteq> ''switzerland'') \<longrightarrow>
        \<not> isDistributedInSwitzerland
            (item\<lparr>countries_tags := Some [''en:france''], purchase_places_tags := Some qs\<rparr>)"
    by (simp add: isDistributedInSwitzerland_iff lower_france)
  have france': "\<not> isDistributedInSwitzerland
         (item\<lparr>countries_tags := Some [''en:france''], purchase_places_tags := None\<rparr>)"
    by (simp add: isDistributedInSwitzerland_iff lower_france)
  show ?thesis
    using isDistributedInSwitzerland_iff[of item] perm schweiz france france' by blast
qed

text \<open>The permutation and the \<open>en:france\<close> parts of C5 at concrete tag lists.\<close>

theorem isDistributedInSwitzerland_spec_witness:
  "isDistributedInSwitzerland
     (emptyProduct\<lparr>countries_tags := Some [''en:france'', ''DE:Schweiz''],
                   purchase_places_tags := Some [''Basel'', ''Bern'']\<rparr>) =
   isDistributedInSwitzerland
     (emptyProduct\<lparr>countries_tags := Some [''DE:Schweiz'', ''en:france''],
                   purchase_places_tags := Some [''Bern'', ''Basel'']\<rparr>)
   \<and> isDistributedInSwitzerland
     (emptyProduct\<lparr>countries_tags := Some [''en:france'', ''DE:Schweiz''],
                   purchase_places_tags := Some [''Basel'', ''Bern'']\<rparr>)
   \<and> \<not> isDistributedInSwitzerland
         (emptyProduct\<lparr>countries_tags := Some [''en:france''],
                       purchase_places_tags := Some [''Basel'', ''Bern'']\<rparr>)"
proof -
  have m: "mset [''en:france'', ''DE:Schweiz''] = mset [''DE:Schweiz'', ''en:france'']
         \<and> mset [''Basel'', ''Bern''] = mset [''Bern'', ''Basel'']"
    by simp
  have q: "\<forall>tag \<in> set [''Basel'', ''Bern'']. toLowerCase tag \<noteq> ''switzerland''"
    by code_simp
  have v: "isDistributedInSwitzerland
     (emptyProduct\<lparr>countries_tags := Some [''en:france'', ''DE:Schweiz''],
                   purchase_places_tags := Some [''Basel'', ''Bern'']\<rparr>)"
    by code_simp
  show ?thesis
    using isDistributedInSwitzerland_spec
            [of emptyProduct "[''en:france'', ''DE:Schweiz'']" "[''DE:Schweiz'', ''en:france'']"
                "[''Basel'', ''Bern'']" "[''Bern'', ''Basel'']" "[''Basel'', ''Bern'']"]
          m q v
    by blast
qed

text \<open>
  C4. \<open>isAvailableAtCoop\<close> holds when some store tag, lower-cased and cut down to what
  follows its last colon, is in the allow-list; otherwise it holds exactly when some
  entry of the lower-cased free-text \<open>stores\<close> field, split at commas and trimmed, is not
  empty and contains \<open>coop\<close>. The tag \<open>ch:coop-pronto\<close> passes, the free text
  \<open>Coop, Manor\<close> passes through the fallback, and \<open>Migros\<close> alone fails.
\<close>

theorem isAvailableAtCoop_spec:
  "isAvailableAtCoop item =
     ((\<exists>tags. stores_tags item = Some tags \<and>
         (\<exists>tag \<in> set tags.
            rev (takeWhile (\<lambda>c. c \<noteq> CHR '':'') (rev (toLowerCase tag))) \<in>
              {''coop'', ''coop-prix-garantie'', ''coop-pronto'', ''coop-city'', ''coop-to-go'',
               ''coop-restaurant'', ''coop-vitality''}))
      \<or> (\<exists>s. stores item = Some s \<and>
         (\<exists>name \<in> set (split CHR '','' (toLowerCase s)).
            trim name \<noteq> [] \<and> (\<exists>pre suf. trim name = pre @ ''coop'' @ suf))))
   \<and> isAvailableAtCoop (item\<lparr>stores_tags := Some [''ch:coop-pronto'']\<rparr>)
   \<and> isAvailableAtCoop (item\<lparr>stores_tags := None, stores := Some ''Coop, Manor''\<rparr>)
   \<and> \<not> isAvailableAtCoop (item\<lparr>stores_tags := None, stores := Some ''Migros''\<rparr>)"
proof -
  have pronto: "list_ex coopTag [''ch:coop-pronto'']"
    by code_simp
  have t1: "isAvailableAtCoop (item\<lparr>stores_tags := Some [''ch:coop-pronto'']\<rparr>)"
    using pronto by (intro isAvailableAtCoop_by_tag[where tags="[''ch:coop-pronto'']"]) simp_all
  have manor: "list_ex (\<lambda>name. includes_str name ''coop'')
       (filter (\<lambda>name. name \<noteq> []) (map trim (split CHR '','' (toLowerCase ''Coop, Manor''))))"
    by code_simp
  have t2: "isAvailableAtCoop (item\<lparr>stores_tags := None, stores := Some ''Coop, Manor''\<rparr>)"
    using manor by (subst isAvailableAtCoop_fallback[where s="''Coop, Manor''"]) simp_all
  have migros: "\<not> list_ex (\<lambda>name. includes_str name ''coop'')
       (filter (\<lambda>name. name \<noteq> []) (map trim (split CHR '','' (toLowerCase ''Migros''))))"
    by code_simp
  have t3: "\<not> isAvailableAtCoop (item\<lparr>stores_tags := None, stores := Some ''Migros''\<rparr>)"
    using migros by (subst isAvailableAtCoop_fallback[where s="''Migros''"]) simp_all
  show ?thesis
    using isAvailableAtCoop_iff[of item] t1 t2 t3 by blast
qed

lemma healthy_after_success:
  "healthyAlternatives
     (fetchAlternatives_resume True p (Fulfilled (ApiResult False d, sustainableResult)) st) =
   filter (\<lambda>item. code item \<noteq> code p \<and> isDistributedInSwitzerland item \<and>
             isAvailableAtCoop item \<and> isValidScore (nutrition_grade_fr item))
     (productsOf (ApiResult False d))"
  by (simp add: fetchAlternatives_resume_def Let_def)

lemma sustainable_after_success:
  "sustainableAlternatives
     (fetchAlternatives_resume True p (Fulfilled (healthyResult, ApiResult False d)) st) =
   filter (\<lambda>item. code item \<noteq> code p \<and> isDistributedInSwitzerland item \<and>
             isAvailableAtCoop item \<and> isValidScore (ecoscore_grade item))
     (productsOf (ApiResult False d))"
  by (simp add: fetchAlternatives_resume_def Let_def)

lemma healthy_excludes_self:
  "code p \<notin> code ` set (healthyAlternatives (fetchAlternatives_resume True p settled st))"
  by (cases settled) (auto simp: fetchAlternatives_resume_def Let_def split: prod.splits)

lemma sustainable_excludes_self:
  "code p \<notin> code ` set (sustainableAlternatives (fetchAlternatives_resume True p settled st))"
  by (cases settled) (auto simp: fetchAlternatives_resume_def Let_def split: prod.splits)

lemma productsOf_present: "productsOf (ApiResult e (Some (SearchResult (Some ps)))) = ps"
  by (simp add: productsOf_def)

lemma productsOf_missing:
  "productsOf (ApiResult e None) = []" "productsOf (ApiResult e (Some (SearchResult None))) = []"
  by (simp_all add: productsOf_def)

lemma productEffect_product:
  "snd (productEffect st) = Some (q, hq, sq) \<Longrightarrow> product st = Some q"
  by (cases "product st") (auto simp: productEffect_def Let_def split: if_splits)

text \<open>
  C2. When the healthy search of the current run succeeds with the product list \<open>ps\<close>,
  the healthy alternatives are \<open>ps\<close> without the items that fail one of four tests: the
  code differs from the displayed product's code, the regional check, the retailer check,
  a valid nutrition grade. An item is in the list exactly when it is in \<open>ps\<close> and passes
  all four. The sustainable list is the same on the eco grade. Missing data or a missing
  product list count as the empty list. No item with the displayed product's code is in
  either list, however the searches settle, and the product the searches were started
  for is the one in the \<open>product\<close> cell when the effect ran.
\<close>

theorem alternatives_membership:
  "healthyAlternatives
     (fetchAlternatives_resume True p
        (Fulfilled (ApiResult False (Some (SearchResult (Some ps))), sustainableResult)) st) =
     filter (\<lambda>item. code item \<noteq> code p \<and> isDistributedInSwitzerland item \<and>
               isAvailableAtCoop item \<and> isValidScore (nutrition_grade_fr item)) ps
   \<and> (item \<in> set (healthyAlternatives
         (fetchAlternatives_resume True p
            (Fulfilled (ApiResult False (Some (SearchResult (Some ps))), sustainableResult)) st))
      \<longleftrightarrow> item \<in> set ps \<and> code item \<noteq> code p \<and> isDistributedInSwitzerland item \<and>
          isAvailableAtCoop item \<and> isValidScore (nutrition_grade_fr item))
   \<and> sustainableAlternatives
       (fetchAlternatives_resume True p
          (Fulfilled (healthyResult, ApiResult False (Some (SearchResult (Some qs))))) st) =
       filter (\<lambda>item. code item \<noteq> code p \<and> isDistributedInSwitzerland item \<and>
                 isAvailableAtCoop item \<and> isValidScore (ecoscore_grade item)) qs
   \<and> (item \<in> set (sustainableAlternatives
         (fetchAlternatives_resume True p
            (Fulfilled (healthyResult, ApiResult False (Some (SearchResult (Some qs))))) st))
      \<longleftrightarrow> item \<in> set qs \<and> code item \<noteq> code p \<and> isDistributedInSwitzerland item \<and>
          isAvailableAtCoop item \<and> isValidScore (ecoscore_grade item))
   \<and> healthyAlternatives
       (fetchAlternatives_resume True p (Fulfilled (ApiResult False None, sustainableResult)) st) = []
   \<and> healthyAlternatives
       (fetchAlternatives_resume True p
          (Fulfilled (ApiResult False (Some (SearchResult None)), sustainableResult)) st) = []
   \<and> sustainableAlternatives
       (fetchAlternatives_resume True p (Fulfilled (healthyResult, ApiResult False None)) st) = []
   \<and> sustainableAlternatives
       (fetchAlternatives_resume True p
          (Fulfilled (healthyResult, ApiResult False (Some (SearchResult None)))) st) = []
   \<and> code p \<notin> code ` set (healthyAlternatives (fetchAlternatives_resume True p settled st))
   \<and> code p \<notin> code ` set (sustainableAlternatives (fetchAlternatives_resume True p settled st))
   \<and> (snd (productEffect st) = Some (q, hq, sq) \<longrightarrow> product st = Some q)"
  unfolding healthy_after_success sustainable_after_success productsOf_present productsOf_missing
  using healthy_excludes_self[of p settled st] sustainable_excludes_self[of p settled st]
        productEffect_product[of st q hq sq]
  by simp

text \<open>C2 on a result of three products, for the shown product \<open>snack\<close>: the one with the
  shown product's code and the one sold abroad are dropped, the third is kept.\<close>

theorem alternatives_membership_witness:
  "healthyAlternatives
     (fetchAlternatives_resume True snack searchesAnswer (initialState\<lparr>product := Some snack\<rparr>)) =
     [alternative]
   \<and> sustainableAlternatives
       (fetchAlternatives_resume True snack searchesAnswer (initialState\<lparr>product := Some snack\<rparr>)) =
     [alternative]
   \<and> alternative \<in> set (healthyAlternatives
       (fetchAlternatives_resume True snack searchesAnswer (initialState\<lparr>product := Some snack\<rparr>)))
   \<and> sameCode \<notin> set (healthyAlternatives
       (fetchAlternatives_resume True snack searchesAnswer (initialState\<lparr>product := Some snack\<rparr>)))
   \<and> abroad \<notin> set (healthyAlternatives
       (fetchAlternatives_resume True snack searchesAnswer (initialState\<lparr>product := Some snack\<rparr>)))
   \<and> product (initialState\<lparr>product := Some snack\<rparr>) = Some snack"
proof -
  have healthy: "filter (\<lambda>item. code item \<noteq> code snack \<and> isDistributedInSwitzerland item \<and>
               isAvailableAtCoop item \<and> isValidScore (nutrition_grade_fr item))
            [sameCode, alternative, abroad] = [alternative]"
    by code_simp
  have sustainable: "filter (\<lambda>item. code item \<noteq> code snack \<and> isDistributedInSwitzerland item \<and>
               isAvailableAtCoop item \<and> isValidScore (ecoscore_grade item))
            [sameCode, alternative, abroad] = [alternative]"
    by code_simp
  have distinct: "sameCode \<noteq> alternative \<and> abroad \<noteq> alternative"
    by code_simp
  have started: "snd (productEffect (initialState\<lparr>product := Some snack\<rparr>)) =
      Some (snack, healthyQuery ''en:snacks'', sustainableQuery ''en:snacks'')"
    by code_simp
  show ?thesis
    unfolding searchesAnswer_def
    using alternatives_membership
            [of snack "[sameCode, alternative, abroad]"
                "ApiResult False (Some (SearchResult (Some [sameCode, alternative, abroad])))"
                "initialState\<lparr>product := Some snack\<rparr>" alternative
                "ApiResult False (Some (SearchResult (Some [sameCode, alternative, abroad])))"
                "[sameCode, alternative, abroad]" Rejected snack
                "healthyQuery ''en:snacks''" "sustainableQuery ''en:snacks''"]
          healthy sustainable distinct started
    by simp
qed

lemma resume_healthy_failed:
  "fetchAlternatives_resume True p (Fulfilled (ApiResult True hdata, ApiResult False sdata)) st =
   st\<lparr>healthyAlternatives := [], healthyError := Some healthyFailedMessage,
      sustainableAlternatives :=
        filter (\<lambda>item. code item \<noteq> code p \<and> isDistributedInSwitzerland item \<and>
                  isAvailableAtCoop item \<and> isValidScore (ecoscore_grade item))
          (productsOf (ApiResult False sdata)),
      healthyLoading := False, sustainableLoading := False\<rparr>"
  by (simp add: fetchAlternatives_resume_def Let_def)

lemma resume_sustainable_failed:
  "fetchAlternatives_resume True p (Fulfilled (ApiResult False hdata, ApiResult True sdata)) st =
   st\<lparr>healthyAlternatives :=
        filter (\<lambda>item. code item \<noteq> code p \<and> isDistributedInSwitzerland item \<and>
                  isAvailableAtCoop item \<and> isValidScore (nutrition_grade_fr item))
          (productsOf (ApiResult False hdata)),
      sustainableAlternatives := [], sustainableError := Some sustainableFailedMessage,
      healthyLoading := False, sustainableLoading := False\<rparr>"
  by (simp add: fetchAlternatives_resume_def Let_def)

lemma resume_rejected:
  "fetchAlternatives_resume True p Rejected st =
   st\<lparr>healthyAlternatives := [], sustainableAlternatives := [],
      healthyError := Some alternativesFailedMessage,
      sustainableError := Some alternativesFailedMessage,
      healthyLoading := False, sustainableLoading := False\<rparr>"
  by (simp add: fetchAlternatives_resume_def Let_def)

lemma healthy_independent:
  "healthyAlternatives (fetchAlternatives_resume True p (Fulfilled (h, s)) st) =
   healthyAlternatives (fetchAlternatives_resume True p (Fulfilled (h, s')) st)
   \<and> healthyError (fetchAlternatives_resume True p (Fulfilled (h, s)) st) =
     healthyError (fetchAlternatives_resume True p (Fulfilled (h, s')) st)"
  by (simp add: fetchAlternatives_resume_def Let_def)

lemma sustainable_independent:
  "sustainableAlternatives (fetchAlternatives_resume True p (Fulfilled (h, s)) st) =
   sustainableAlternatives (fetchAlternatives_resume True p (Fulfilled (h', s)) st)
   \<and> sustainableError (fetchAlternatives_resume True p (Fulfilled (h, s)) st) =
     sustainableError (fetchAlternatives_resume True p (Fulfilled (h', s)) st)"
  by (simp add: fetchAlternatives_resume_def Let_def)

text \<open>
  C6. In the run that is still current: when only the healthy search returns an error
  result, the healthy list is emptied and the healthy message set, while the sustainable
  list is the filtered result and the sustainable error stays as it was; the same with
  the roles exchanged. What either list and its error become does not depend on the
  other search's result. When the paired await throws, both lists are emptied and both
  errors set.
\<close>

theorem failure_isolation:
  "fetchAlternatives_resume True p (Fulfilled (ApiResult True hdata, ApiResult False sdata)) st =
     st\<lparr>healthyAlternatives := [], healthyError := Some healthyFailedMessage,
        sustainableAlternatives :=
          filter (\<lambda>item. code item \<noteq> code p \<and> isDistributedInSwitzerland item \<and>
                    isAvailableAtCoop item \<and> isValidScore (ecoscore_grade item))
            (productsOf (ApiResult False sdata)),
        healthyLoading := False, sustainableLoading := False\<rparr>
   \<and> fetchAlternatives_resume True p (Fulfilled (ApiResult False hdata, ApiResult True sdata)) st =
     st\<lparr>healthyAlternatives :=
          filter (\<lambda>item. code item \<noteq> code p \<and> isDistributedInSwitzerland item \<and>
                    isAvailableAtCoop item \<and> isValidScore (nutrition_grade_fr item))
            (productsOf (ApiResult False hdata)),
        sustainableAlternatives := [], sustainableError := Some sustainableFailedMessage,
        healthyLoading := False, sustainableLoading := False\<rparr>
   \<and> healthyAlternatives (fetchAlternatives_resume True p (Fulfilled (h, s)) st) =
     healthyAlternatives (fetchAlternatives_resume True p (Fulfilled (h, s')) st)
   \<and> healthyError (fetchAlternatives_resume True p (Fulfilled (h, s)) st) =
     healthyError (fetchAlternatives_resume True p (Fulfilled (h, s')) st)
   \<and> sustainableAlternatives (fetchAlternatives_resume True p (Fulfilled (h, s)) st) =
     sustainableAlternatives (fetchAlternatives_resume True p (Fulfilled (h', s)) st)
   \<and> sustainableError (fetchAlternatives_resume True p (Fulfilled (h, s)) st) =
     sustainableError (fetchAlternatives_resume True p (Fulfilled (h', s)) st)
   \<and> fetchAlternatives_resume True p Rejected st =
     st\<lparr>healthyAlternatives := [], sustainableAlternatives := [],
        healthyError := Some alternativesFailedMessage,
        sustainableError := Some alternativesFailedMessage,
        healthyLoading := False, sustainableLoading := False\<rparr>"
  using resume_healthy_failed[of p hdata sdata st] resume_sustainable_failed[of p hdata sdata st]
        healthy_independent[of p h s st s'] sustainable_independent[of p h s st h']
        resume_rejected[of p st]
  by (simp only: simp_thms)

lemma at_index_last:
  "at_index tags (int (length tags) - 1) = (if tags = [] then None else Some (last tags))"
  by (cases tags rule: rev_cases) (auto simp: at_index_def nth_append)

lemma at_index_Nil: "at_index [] i = None"
  by (simp add: at_index_def)

lemma categoryTag_last:
  "categoryTag p =
     (case categories_tags p of
        None \<Rightarrow> None
      | Some tags \<Rightarrow> if tags = [] then None else Some (last tags))"
  by (cases "categories_tags p") (simp_all add: categoryTag_def at_index_last at_index_Nil)

lemma productEffect_no_tag:
  "product st = Some p \<Longrightarrow> categoryTag p = None \<or> categoryTag p = Some [] \<Longrightarrow>
   productEffect st =
     (st\<lparr>healthyAlternatives := [], sustainableAlternatives := [],
         healthyError := Some missingCategoriesMessage,
         sustainableError := Some missingCategoriesMessage,
         healthyLoading := False, sustainableLoading := False\<rparr>, None)"
  by (simp add: productEffect_def Let_def)

text \<open>
  C8. The category tag is the last element of \<open>categories_tags\<close>, with the first element
  as the fallback when there is no last one; a missing or empty list gives no tag. For a
  displayed product whose list is missing or empty the effect empties both lists, sets
  both errors to the missing-categories message, clears both loading flags and issues no
  search.
\<close>

theorem category_derivation:
  "(categories_tags p = Some tags \<and> tags \<noteq> [] \<longrightarrow> categoryTag p = Some (last tags))
   \<and> (categories_tags p = Some tags \<and> at_index tags (int (length tags) - 1) = None \<longrightarrow>
        categoryTag p = at_index tags 0)
   \<and> (categories_tags p = None \<or> categories_tags p = Some [] \<longrightarrow> categoryTag p = None)
   \<and> (product st = Some p \<and> (categories_tags p = None \<or> categories_tags p = Some []) \<longrightarrow>
        productEffect st =
          (st\<lparr>healthyAlternatives := [], sustainableAlternatives := [],
              healthyError := Some missingCategoriesMessage,
              sustainableError := Some missingCategoriesMessage,
              healthyLoading := False, sustainableLoading := False\<rparr>, None))"
proof -
  have a: "categories_tags p = Some tags \<and> tags \<noteq> [] \<longrightarrow> categoryTag p = Some (last tags)"
    by (simp add: categoryTag_last)
  have b: "categories_tags p = Some tags \<and> at_index tags (int (length tags) - 1) = None \<longrightarrow>
        categoryTag p = at_index tags 0"
    by (simp add: categoryTag_def)
  have c: "categories_tags p = None \<or> categories_tags p = Some [] \<longrightarrow> categoryTag p = None"
    by (auto simp: categoryTag_last)
  have d: "product st = Some p \<and> (categories_tags p = None \<or> categories_tags p = Some []) \<longrightarrow>
        productEffect st =
          (st\<lparr>healthyAlternatives := [], sustainableAlternatives := [],
              healthyError := Some missingCategoriesMessage,
              sustainableError := Some missingCategoriesMessage,
              healthyLoading := False, sustainableLoading := False\<rparr>, None)"
    using c productEffect_no_tag[of st p] by blast
  from a b c d show ?thesis by blast
qed

text \<open>C8 at a product with two category tags, at one with an empty list and at one
  without the list.\<close>

theorem category_derivation_witness:
  "categoryTag (emptyProduct\<lparr>categories_tags := Some [''en:snacks'', ''en:chips'']\<rparr>) =
     Some ''en:chips''
   \<and> categoryTag (emptyProduct\<lparr>categories_tags := Some []\<rparr>) = None
   \<and> productEffect (initialState\<lparr>product := Some emptyProduct\<rparr>) =
       (initialState\<lparr>product := Some emptyProduct,
                     healthyAlternatives := [], sustainableAlternatives := [],
                     healthyError := Some missingCategoriesMessage,
                     sustainableError := Some missingCategoriesMessage,
                     healthyLoading := False, sustainableLoading := False\<rparr>, None)"
proof -
  have none: "categories_tags emptyProduct = None"
    by (simp add: emptyProduct_def)
  have shown: "product (initialState\<lparr>product := Some emptyProduct\<rparr>) = Some emptyProduct"
    by simp
  have last: "at_index ([]::string list) (int (length ([]::string list)) - 1) = None"
    by (simp add: at_index_def)
  show ?thesis
    using category_derivation
            [of "emptyProduct\<lparr>categories_tags := Some [''en:snacks'', ''en:chips'']\<rparr>"
                "[''en:snacks'', ''en:chips'']"]
          category_derivation [of "emptyProduct\<lparr>categories_tags := Some []\<rparr>" "[]"]
          category_derivation
            [of emptyProduct "[]" "initialState\<lparr>product := Some emptyProduct\<rparr>"]
          none shown last
    by (simp add: at_index_Nil)
qed

lemma invalid_not_communication: "invalidCodeMessage \<noteq> communicationMessage"
  by (simp add: invalidCodeMessage_def communicationMessage_def)

lemma notFound_not_communication: "notFoundMessage t \<noteq> communicationMessage"
  by (simp add: notFoundMessage_def communicationMessage_def)

lemma notFound_not_invalid: "notFoundMessage t \<noteq> invalidCodeMessage"
  by (simp add: notFoundMessage_def invalidCodeMessage_def)

lemma performLookup_empty:
  "trim input = [] \<Longrightarrow>
   performLookup input client st = st\<lparr>error := Some invalidCodeMessage, product := None\<rparr>
   \<and> snd (performLookup_begin input st) = None"
  by (simp add: performLookup_def performLookup_begin_def)

lemma performLookup_nonempty:
  "trim input \<noteq> [] \<Longrightarrow>
   performLookup input client st =
     performLookup_resume (trim input) (client (trim input))
       (st\<lparr>loading := True, error := None, product := None,
           healthyAlternatives := [], sustainableAlternatives := [],
           healthyError := None, sustainableError := None\<rparr>)"
  by (simp add: performLookup_def performLookup_begin_def)

lemma performLookup_rejected:
  "trim input \<noteq> [] \<Longrightarrow> client (trim input) = Rejected \<Longrightarrow>
   error (performLookup input client st) = Some communicationMessage
   \<and> product (performLookup input client st) = None"
  by (simp add: performLookup_nonempty performLookup_resume_def)

lemma performLookup_error_result:
  "trim input \<noteq> [] \<Longrightarrow> client (trim input) = Fulfilled (ApiResult True d) \<Longrightarrow>
   error (performLookup input client st) = Some communicationMessage
   \<and> product (performLookup input client st) = None"
  by (simp add: performLookup_nonempty performLookup_resume_def)

lemma performLookup_unusable:
  "trim input \<noteq> [] \<Longrightarrow> client (trim input) = Fulfilled (ApiResult False d) \<Longrightarrow>
   usableProduct d = None \<Longrightarrow>
   error (performLookup input client st) = Some (notFoundMessage (trim input))
   \<and> product (performLookup input client st) = None"
  by (simp add: performLookup_nonempty performLookup_resume_def)

lemma performLookup_usable:
  "trim input \<noteq> [] \<Longrightarrow> client (trim input) = Fulfilled (ApiResult False d) \<Longrightarrow>
   usableProduct d = Some p \<Longrightarrow>
   product (performLookup input client st) = Some p
   \<and> error (performLookup input client st) = None
   \<and> barcode (performLookup input client st) = []"
  by (simp add: performLookup_nonempty performLookup_resume_def)

text \<open>The four ways a run can end, read off the state it leaves.\<close>

lemma performLookup_cases:
  "(trim input = [] \<and> error (performLookup input client st) = Some invalidCodeMessage
      \<and> product (performLookup input client st) = None)
   \<or> (trim input \<noteq> [] \<and>
       (client (trim input) = Rejected \<or> (\<exists>d. client (trim input) = Fulfilled (ApiResult True d)))
      \<and> error (performLookup input client st) = Some communicationMessage
      \<and> product (performLookup input client st) = None)
   \<or> (trim input \<noteq> [] \<and>
       (\<exists>d. client (trim input) = Fulfilled (ApiResult False d) \<and> usableProduct d = None)
      \<and> error (performLookup input client st) = Some (notFoundMessage (trim input))
      \<and> product (performLookup input client st) = None)
   \<or> (trim input \<noteq> [] \<and>
       (\<exists>d p. client (trim input) = Fulfilled (ApiResult False d) \<and> usableProduct d = Some p
          \<and> product (performLookup input client st) = Some p)
      \<and> error (performLookup input client st) = None
      \<and> barcode (performLookup input client st) = [])"
proof (cases "trim input = []")
  case True
  then show ?thesis using performLookup_empty[of input client st] by simp
next
  case False
  show ?thesis
  proof (cases "client (trim input)")
    case Rejected
    then show ?thesis using False performLookup_rejected[of input client st] by simp
  next
    case (Fulfilled result)
    obtain e d where r: "result = ApiResult e d" by (cases result)
    show ?thesis
    proof (cases e)
      case True
      then show ?thesis
        using False Fulfilled r performLookup_error_result[of input client d st] by simp
    next
      case noerr: False
      show ?thesis
      proof (cases "usableProduct d")
        case None
        then show ?thesis
          using False Fulfilled r noerr performLookup_unusable[of input client d st] by simp
      next
        case (Some p)
        then show ?thesis
          using False Fulfilled r noerr performLookup_usable[of input client d p st] by simp
      qed
    qed
  qed
qed


text \<open>
  C7. A run of \<open>performLookup\<close> ends in one of four ways. An input that trims to nothing:
  the validation message is set, the product is null and the client is not called. The
  client throws or returns an error result: the communication message. A response
  without a usable product (data or product missing, or a status other than 1): the
  not-found message with the trimmed code, which is not the communication message. A
  product with status 1: the product is shown, there is no error and the input field is
  empty. The state a run leaves has exactly one of the four shapes.
\<close>

theorem performLookup_outcomes:
  "(let t = trim input; r = performLookup input client st
    in (t = [] \<longrightarrow>
          r = st\<lparr>error := Some invalidCodeMessage, product := None\<rparr>
          \<and> snd (performLookup_begin input st) = None)
     \<and> (t \<noteq> [] \<and> (client t = Rejected \<or> client t = Fulfilled (ApiResult True d)) \<longrightarrow>
          error r = Some communicationMessage \<and> product r = None)
     \<and> (t \<noteq> [] \<and> client t = Fulfilled (ApiResult False d)
          \<and> (d = None \<or> (\<exists>s. d = Some (LookupData s None))
               \<or> (\<exists>n q. d = Some (LookupData (Some n) q) \<and> n \<noteq> 1)) \<longrightarrow>
          error r = Some (notFoundMessage t) \<and> product r = None
          \<and> notFoundMessage t \<noteq> communicationMessage)
     \<and> (t \<noteq> [] \<and> client t = Fulfilled (ApiResult False (Some (LookupData (Some 1) (Some p)))) \<longrightarrow>
          product r = Some p \<and> error r = None \<and> barcode r = [])
     \<and> ((error r = Some invalidCodeMessage \<and> product r = None
            \<and> error r \<noteq> Some communicationMessage \<and> error r \<noteq> Some (notFoundMessage t))
         \<or> (error r = Some communicationMessage \<and> product r = None
            \<and> error r \<noteq> Some invalidCodeMessage \<and> error r \<noteq> Some (notFoundMessage t))
         \<or> (error r = Some (notFoundMessage t) \<and> product r = None
            \<and> error r \<noteq> Some invalidCodeMessage \<and> error r \<noteq> Some communicationMessage)
         \<or> (error r = None \<and> product r \<noteq> None \<and> barcode r = [])))"
proof -
  let ?t = "trim input" and ?r = "performLookup input client st"
  have a: "?t = [] \<longrightarrow>
          ?r = st\<lparr>error := Some invalidCodeMessage, product := None\<rparr>
          \<and> snd (performLookup_begin input st) = None"
    using performLookup_empty[of input client st] by blast
  have b: "?t \<noteq> [] \<and> (client ?t = Rejected \<or> client ?t = Fulfilled (ApiResult True d)) \<longrightarrow>
          error ?r = Some communicationMessage \<and> product ?r = None"
    using performLookup_rejected[of input client st]
          performLookup_error_result[of input client d st] by blast
  have unusable: "d = None \<or> (\<exists>s. d = Some (LookupData s None))
               \<or> (\<exists>n q. d = Some (LookupData (Some n) q) \<and> n \<noteq> 1) \<Longrightarrow> usableProduct d = None"
    by (auto simp: usableProduct_def split: option.splits)
  have c: "?t \<noteq> [] \<and> client ?t = Fulfilled (ApiResult False d)
          \<and> (d = None \<or> (\<exists>s. d = Some (LookupData s None))
               \<or> (\<exists>n q. d = Some (LookupData (Some n) q) \<and> n \<noteq> 1)) \<longrightarrow>
          error ?r = Some (notFoundMessage ?t) \<and> product ?r = None
          \<and> notFoundMessage ?t \<noteq> communicationMessage"
  proof (intro impI, elim conjE)
    assume t: "?t \<noteq> []" and cl: "client ?t = Fulfilled (ApiResult False d)"
      and u: "d = None \<or> (\<exists>s. d = Some (LookupData s None))
               \<or> (\<exists>n q. d = Some (LookupData (Some n) q) \<and> n \<noteq> 1)"
    from u have "usableProduct d = None" by (rule unusable)
    with t cl have "error ?r = Some (notFoundMessage ?t) \<and> product ?r = None"
      by (rule performLookup_unusable)
    then show "error ?r = Some (notFoundMessage ?t) \<and> product ?r = None
          \<and> notFoundMessage ?t \<noteq> communicationMessage"
      using notFound_not_communication[of ?t] by simp
  qed
  have usable: "usableProduct (Some (LookupData (Some 1) (Some p))) = Some p"
    by (simp add: usableProduct_def)
  have d: "?t \<noteq> [] \<and> client ?t = Fulfilled (ApiResult False (Some (LookupData (Some 1) (Some p)))) \<longrightarrow>
          product ?r = Some p \<and> error ?r = None \<and> barcode ?r = []"
    using performLookup_usable[of input client "Some (LookupData (Some 1) (Some p))" p st] usable
    by blast
  have e: "(error ?r = Some invalidCodeMessage \<and> product ?r = None
            \<and> error ?r \<noteq> Some communicationMessage \<and> error ?r \<noteq> Some (notFoundMessage ?t))
         \<or> (error ?r = Some communicationMessage \<and> product ?r = None
            \<and> error ?r \<noteq> Some invalidCodeMessage \<and> error ?r \<noteq> Some (notFoundMessage ?t))
         \<or> (error ?r = Some (notFoundMessage ?t) \<and> product ?r = None
            \<and> error ?r \<noteq> Some invalidCodeMessage \<and> error ?r \<noteq> Some communicationMessage)
         \<or> (error ?r = None \<and> product ?r \<noteq> None \<and> barcode ?r = [])"
    using performLookup_cases[of input client st]
          invalid_not_communication notFound_not_communication[of ?t] notFound_not_invalid[of ?t]
    by (elim disjE) (simp_all, metis+)
  from a b c d e show ?thesis unfolding Let_def by blast
qed


lemma trim_examples:
  "trim [] = []" "trim ''x'' = ''x''" "trim ''737628064502'' = ''737628064502''"
  by code_simp+

text \<open>C7 at the empty input, at a client that throws, at a status 0, and at the end-to-end
  example: the code \<open>737628064502\<close> submitted against the mocked client.\<close>

theorem performLookup_outcomes_witness:
  "performLookup [] mockClient initialState =
     initialState\<lparr>error := Some invalidCodeMessage, product := None\<rparr>
   \<and> snd (performLookup_begin [] initialState) = None
   \<and> error (performLookup ''x'' (\<lambda>requested. Rejected) initialState) = Some communicationMessage
   \<and> error (performLookup ''x''
        (\<lambda>requested. Fulfilled (ApiResult False (Some (LookupData (Some 0) (Some mockProduct)))))
        initialState) = Some (notFoundMessage ''x'')
   \<and> product (fetchProduct mockClient (initialState\<lparr>barcode := ''737628064502''\<rparr>)) =
       Some mockProduct
   \<and> product_name mockProduct = Some ''Test''
   \<and> error (fetchProduct mockClient (initialState\<lparr>barcode := ''737628064502''\<rparr>)) = None
   \<and> barcode (fetchProduct mockClient (initialState\<lparr>barcode := ''737628064502''\<rparr>)) = []"
proof -
  have name: "product_name mockProduct = Some ''Test''"
    by (simp add: mockProduct_def)
  have zero: "(0::int) \<noteq> 1" by simp
  show ?thesis
    using performLookup_outcomes [of "[]" mockClient initialState None mockProduct]
          performLookup_outcomes [of "''x''" "\<lambda>requested. Rejected" initialState None mockProduct]
          performLookup_outcomes
            [of "''x''"
                "\<lambda>requested. Fulfilled (ApiResult False (Some (LookupData (Some 0) (Some mockProduct))))"
                initialState "Some (LookupData (Some 0) (Some mockProduct))" mockProduct]
          performLookup_outcomes
            [of "''737628064502''" mockClient "initialState\<lparr>barcode := ''737628064502''\<rparr>"
                None mockProduct]
          name zero
    by (simp add: Let_def trim_examples fetchProduct_def mockClient_def)
qed

text \<open>
  C10. A response with a product and no \<open>status\<close> member is a successful lookup: the
  product is shown and the input field emptied. A run ends with the not-found message
  only when the client returned a result without error whose data or product is missing
  or whose status is present and not 1.
\<close>

theorem status_absent_is_success:
  "(let t = trim input; r = performLookup input client st
    in (t \<noteq> [] \<and> client t = Fulfilled (ApiResult False (Some (LookupData None (Some p)))) \<longrightarrow>
          product r = Some p \<and> error r = None \<and> barcode r = [])
     \<and> (error r = Some (notFoundMessage t) \<longrightarrow>
          t \<noteq> [] \<and>
          (\<exists>d. client t = Fulfilled (ApiResult False d) \<and>
             (d = None \<or> (\<exists>s. d = Some (LookupData s None))
              \<or> (\<exists>n q. d = Some (LookupData (Some n) q) \<and> n \<noteq> 1)))))"
proof -
  let ?t = "trim input" and ?r = "performLookup input client st"
  have usable: "usableProduct (Some (LookupData None (Some p))) = Some p"
    by (simp add: usableProduct_def)
  have a: "?t \<noteq> [] \<and> client ?t = Fulfilled (ApiResult False (Some (LookupData None (Some p)))) \<longrightarrow>
          product ?r = Some p \<and> error ?r = None \<and> barcode ?r = []"
    using performLookup_usable[of input client "Some (LookupData None (Some p))" p st] usable
    by blast
  have shape: "usableProduct d = None \<Longrightarrow>
         d = None \<or> (\<exists>s. d = Some (LookupData s None))
         \<or> (\<exists>n q. d = Some (LookupData (Some n) q) \<and> n \<noteq> 1)" for d
  proof (cases d)
    case None then show ?thesis by simp
  next
    case (Some dd)
    assume "usableProduct d = None"
    with Some show ?thesis
      by (cases dd) (auto simp: usableProduct_def split: option.splits if_splits)
  qed
  have b: "error ?r = Some (notFoundMessage ?t) \<longrightarrow>
          ?t \<noteq> [] \<and>
          (\<exists>d. client ?t = Fulfilled (ApiResult False d) \<and>
             (d = None \<or> (\<exists>s. d = Some (LookupData s None))
              \<or> (\<exists>n q. d = Some (LookupData (Some n) q) \<and> n \<noteq> 1)))"
  proof
    assume nf: "error ?r = Some (notFoundMessage ?t)"
    from performLookup_cases[of input client st] nf
    have "?t \<noteq> [] \<and> (\<exists>d. client ?t = Fulfilled (ApiResult False d) \<and> usableProduct d = None)"
      using notFound_not_communication[of ?t] notFound_not_invalid[of ?t]
      by (elim disjE) simp_all
    then show "?t \<noteq> [] \<and>
          (\<exists>d. client ?t = Fulfilled (ApiResult False d) \<and>
             (d = None \<or> (\<exists>s. d = Some (LookupData s None))
              \<or> (\<exists>n q. d = Some (LookupData (Some n) q) \<and> n \<noteq> 1)))"
      using shape by blast
  qed
  from a b show ?thesis unfolding Let_def by blast
qed

text \<open>C10 at a mocked response without \<open>status\<close>, and at one with status 0.\<close>

theorem status_absent_is_success_witness:
  "product (performLookup ''x''
      (\<lambda>requested. Fulfilled (ApiResult False (Some (LookupData None (Some mockProduct)))))
      initialState) = Some mockProduct
   \<and> barcode (performLookup ''x''
      (\<lambda>requested. Fulfilled (ApiResult False (Some (LookupData None (Some mockProduct)))))
      (initialState\<lparr>barcode := ''x''\<rparr>)) = []
   \<and> (\<exists>d. Fulfilled (ApiResult False (Some (LookupData (Some 0) (Some mockProduct)))) =
            Fulfilled (ApiResult False d) \<and>
          (d = None \<or> (\<exists>s. d = Some (LookupData s None))
           \<or> (\<exists>n q. d = Some (LookupData (Some n) q) \<and> n \<noteq> (1::int))))"
proof -
  have nf: "error (performLookup ''x''
        (\<lambda>requested. Fulfilled (ApiResult False (Some (LookupData (Some 0) (Some mockProduct)))))
        initialState) = Some (notFoundMessage (trim ''x''))"
    by (simp add: performLookup_nonempty trim_examples performLookup_resume_def usableProduct_def)
  show ?thesis
    using status_absent_is_success
            [of "''x''"
                "\<lambda>requested. Fulfilled (ApiResult False (Some (LookupData None (Some mockProduct))))"
                initialState mockProduct]
          status_absent_is_success
            [of "''x''"
                "\<lambda>requested. Fulfilled (ApiResult False (Some (LookupData None (Some mockProduct))))"
                "initialState\<lparr>barcode := ''x''\<rparr>" mockProduct]
          status_absent_is_success
            [of "''x''"
                "\<lambda>requested. Fulfilled (ApiResult False (Some (LookupData (Some 0) (Some mockProduct))))"
                initialState mockProduct]
          nf
    by (simp add: Let_def trim_examples)
qed

text \<open>
  C9. An invocation of the decode callback with a \<open>NotFoundException\<close>, or with no error,
  leaves the scanner's error as it was. Any other error sets the scan-failure message,
  and an invocation that changes the scanner's error was given an error other than
  \<open>NotFoundException\<close>.
\<close>

theorem notFound_never_surfaces:
  "scannerError (fst (decodeCallback result (Some NotFoundException) st)) = scannerError st
   \<and> scannerError (fst (decodeCallback result None st)) = scannerError st
   \<and> (err = Some e \<and> e \<noteq> NotFoundException \<longrightarrow>
        scannerError (fst (decodeCallback result err st)) = Some scanFailedMessage)
   \<and> (scannerError (fst (decodeCallback result err st)) \<noteq> scannerError st \<longrightarrow>
        (\<exists>e. err = Some e \<and> e \<noteq> NotFoundException))"
  by (auto simp: decodeCallback_def stopScanning_def Let_def split: option.splits if_splits)

text \<open>C9 at a checksum error on a scanner without an error.\<close>

theorem notFound_never_surfaces_witness:
  "scannerError (fst (decodeCallback None (Some ChecksumException)
      \<lparr>cameras = [], selectedDeviceId = None, isScanning = True, scannerError = None\<rparr>)) =
     Some scanFailedMessage
   \<and> scannerError (fst (decodeCallback None (Some ChecksumException)
      \<lparr>cameras = [], selectedDeviceId = None, isScanning = True, scannerError = None\<rparr>)) \<noteq>
     scannerError
       \<lparr>cameras = [], selectedDeviceId = None, isScanning = True, scannerError = None\<rparr>"
  using notFound_never_surfaces
          [of None "\<lparr>cameras = [], selectedDeviceId = None, isScanning = True, scannerError = None\<rparr>"
              "Some ChecksumException" ChecksumException]
  by simp

lemma wellFormed_initial: "wellFormed initialRuntime"
  by (simp add: wellFormed_def initialRuntime_def)

lemma runCleanup_fetches:
  "length (fetches (runCleanup rt)) = length (fetches rt)"
  "cleanup (runCleanup rt) = None"
  "ui (runCleanup rt) = ui rt"
  by (simp_all add: runCleanup_def split: option.splits)

lemma runCleanup_inactive:
  assumes "wellFormed rt" and "i < length (fetches rt)"
  shows "\<not> isActive (fetches (runCleanup rt) ! i)"
proof (cases "cleanup rt")
  case None
  with assms show ?thesis by (auto simp: runCleanup_def wellFormed_def)
next
  case (Some j)
  with assms show ?thesis
    by (cases "i = j") (auto simp: runCleanup_def wellFormed_def)
qed

lemma runCleanup_stale:
  assumes "stale rt i"
  shows "stale (runCleanup rt) i"
proof (cases "cleanup rt")
  case None
  with assms show ?thesis by (simp add: runCleanup_def)
next
  case (Some j)
  with assms show ?thesis
    by (cases "i = j") (simp_all add: stale_def runCleanup_def)
qed

lemma runEffect_cases:
  obtains (quiet) st where "runEffect rt = (runCleanup rt)\<lparr>ui := st\<rparr>"
  | (started) st p where
      "runEffect rt =
         (runCleanup rt)\<lparr>ui := st,
            fetches := fetches (runCleanup rt) @ [\<lparr>isActive = True, closureProduct = p\<rparr>],
            cleanup := Some (length (fetches (runCleanup rt)))\<rparr>"
proof (cases "productEffect (ui (runCleanup rt))")
  case (Pair st started')
  show ?thesis
  proof (cases started')
    case None
    with Pair have "runEffect rt = (runCleanup rt)\<lparr>ui := st\<rparr>"
      by (simp add: runEffect_def Let_def)
    then show ?thesis by (rule quiet)
  next
    case (Some triple)
    obtain p hq sq where "triple = (p, hq, sq)" by (cases triple)
    with Pair Some have "runEffect rt =
         (runCleanup rt)\<lparr>ui := st,
            fetches := fetches (runCleanup rt) @ [\<lparr>isActive = True, closureProduct = p\<rparr>],
            cleanup := Some (length (fetches (runCleanup rt)))\<rparr>"
      by (simp add: runEffect_def Let_def)
    then show ?thesis by (rule started)
  qed
qed

lemma runEffect_supersedes:
  assumes "wellFormed rt" and "i < length (fetches rt)"
  shows "stale (runEffect rt) i"
proof (cases rt rule: runEffect_cases)
  case (quiet st)
  with assms show ?thesis
    by (simp add: stale_def runCleanup_fetches runCleanup_inactive)
next
  case (started st p)
  with assms show ?thesis
    by (simp add: stale_def runCleanup_fetches runCleanup_inactive nth_append)
qed

lemma runEffect_stale: "stale rt i \<Longrightarrow> stale (runEffect rt) i"
proof (cases rt rule: runEffect_cases)
  case (quiet st)
  assume "stale rt i"
  then have "stale (runCleanup rt) i" by (rule runCleanup_stale)
  with quiet show ?thesis by (simp add: stale_def)
next
  case (started st p)
  assume "stale rt i"
  then have "stale (runCleanup rt) i" by (rule runCleanup_stale)
  with started show ?thesis by (simp add: stale_def nth_append)
qed

lemma runEffect_wellFormed:
  assumes "wellFormed rt"
  shows "wellFormed (runEffect rt)"
proof -
  have none: "\<not> isActive (fetches (runCleanup rt) ! i)" if "i < length (fetches rt)" for i
    using assms that by (rule runCleanup_inactive)
  show ?thesis
  proof (cases rt rule: runEffect_cases)
    case (quiet st)
    then show ?thesis using none by (simp add: wellFormed_def runCleanup_fetches)
  next
    case (started st p)
    then show ?thesis using none
      by (auto simp: wellFormed_def runCleanup_fetches nth_append)
  qed
qed

text \<open>An event other than a render leaves the runs and the registered cleanup alone.\<close>

lemma fire_handler:
  "ev \<noteq> Rendered \<Longrightarrow>
   fetches (fire ev rt) = fetches rt \<and> cleanup (fire ev rt) = cleanup rt
   \<and> ui (fire ev rt) = handle ev rt"
  by (cases ev; cases "productWrite ev") (simp_all add: fire_def Let_def)

lemma fire_rendered: "fire Rendered rt = render rt"
  by (simp add: fire_def)

lemma render_wellFormed: "wellFormed rt \<Longrightarrow> wellFormed (render rt)"
  using runEffect_wellFormed[of rt] by (simp add: render_def wellFormed_def)

lemma render_stale: "stale rt i \<Longrightarrow> stale (render rt) i"
  using runEffect_stale[of rt i] by (simp add: render_def stale_def)

lemma render_supersedes:
  "wellFormed rt \<Longrightarrow> shown rt \<noteq> deps rt \<Longrightarrow> i < length (fetches rt) \<Longrightarrow> stale (render rt) i"
  using runEffect_supersedes[of rt i] by (simp add: render_def stale_def)

lemma fire_wellFormed: "wellFormed rt \<Longrightarrow> wellFormed (fire ev rt)"
proof (cases "ev = Rendered")
  case True
  assume "wellFormed rt"
  with True show ?thesis by (simp add: fire_rendered render_wellFormed)
next
  case False
  assume "wellFormed rt"
  with fire_handler[OF False, of rt] show ?thesis by (simp add: wellFormed_def)
qed

lemma fire_stale: "stale rt i \<Longrightarrow> stale (fire ev rt) i"
proof (cases "ev = Rendered")
  case True
  assume "stale rt i"
  with True show ?thesis by (simp add: fire_rendered render_stale)
next
  case False
  assume "stale rt i"
  with fire_handler[OF False, of rt] show ?thesis by (simp add: stale_def)
qed

lemma run_wellFormed: "wellFormed rt \<Longrightarrow> wellFormed (run evs rt)"
  by (induction evs arbitrary: rt) (simp_all add: fire_wellFormed)

lemma run_stale: "stale rt i \<Longrightarrow> stale (run evs rt) i"
  by (induction evs arbitrary: rt) (simp_all add: fire_stale)

lemma resume_inactive: "fetchAlternatives_resume False p settled st = st"
  by (cases settled) (simp_all add: fetchAlternatives_resume_def split: prod.splits)

lemma stale_settle_silent: "stale rt i \<Longrightarrow> ui (fire (SearchesSettle i settled) rt) = ui rt"
  by (simp add: fire_def Let_def stale_def resume_inactive)

lemma settle_writes_current:
  assumes "wellFormed rt" and "ui (fire (SearchesSettle i settled) rt) \<noteq> ui rt"
  shows "Suc i = length (fetches rt) \<and> cleanup rt = Some i"
proof -
  from assms(2) have i: "i < length (fetches rt)"
    by (auto simp: fire_def Let_def split: if_splits)
  with assms(2) have "isActive (fetches rt ! i)"
    using stale_settle_silent[of rt i settled] by (auto simp: stale_def)
  with assms(1) i show ?thesis by (auto simp: wellFormed_def)
qed

text \<open>
  C1, amended. Take any sequence of events after which \<open>product\<close> is another object than
  at the effect's last run, then the render that runs the effect again (the cleanup of
  the last run first), then any further events. The searches of every run started before
  that render write nothing when they settle: the whole state, and with it both
  alternative lists, both error messages and both loading flags, stays as it is.
  Whenever settling searches do change the state, they are those of the most recent run,
  whose cleanup function is still registered.
\<close>

theorem suppression_after_cleanup:
  "(i < length (fetches (run before initialRuntime)) \<and>
    shown (run before initialRuntime) \<noteq> deps (run before initialRuntime) \<longrightarrow>
      ui (fire (SearchesSettle i settled)
            (run after (fire Rendered (run before initialRuntime)))) =
      ui (run after (fire Rendered (run before initialRuntime))))
   \<and> (ui (fire (SearchesSettle i settled) (run evs initialRuntime)) \<noteq>
         ui (run evs initialRuntime) \<longrightarrow>
        Suc i = length (fetches (run evs initialRuntime)) \<and>
        cleanup (run evs initialRuntime) = Some i)"
proof -
  have wf: "wellFormed (run es initialRuntime)" for es
    using wellFormed_initial by (rule run_wellFormed)
  have first: "i < length (fetches (run before initialRuntime)) \<and>
    shown (run before initialRuntime) \<noteq> deps (run before initialRuntime) \<longrightarrow>
      ui (fire (SearchesSettle i settled)
            (run after (fire Rendered (run before initialRuntime)))) =
      ui (run after (fire Rendered (run before initialRuntime)))"
  proof (intro impI, elim conjE)
    assume triggered: "i < length (fetches (run before initialRuntime))"
      and changed: "shown (run before initialRuntime) \<noteq> deps (run before initialRuntime)"
    from wf[of before] changed triggered
    have "stale (render (run before initialRuntime)) i"
      by (rule render_supersedes)
    then have "stale (fire Rendered (run before initialRuntime)) i"
      by (simp add: fire_rendered)
    then have "stale (run after (fire Rendered (run before initialRuntime))) i"
      by (rule run_stale)
    then show "ui (fire (SearchesSettle i settled)
            (run after (fire Rendered (run before initialRuntime)))) =
      ui (run after (fire Rendered (run before initialRuntime)))"
      by (rule stale_settle_silent)
  qed
  have second: "ui (fire (SearchesSettle i settled) (run evs initialRuntime)) \<noteq>
         ui (run evs initialRuntime) \<longrightarrow>
        Suc i = length (fetches (run evs initialRuntime)) \<and>
        cleanup (run evs initialRuntime) = Some i"
    using settle_writes_current[OF wf[of evs], of i settled] by blast
  from first second show ?thesis by (rule conjI)
qed

text \<open>C1, amended, on the example session: a scan replaces the shown product, the
  framework renders, the user types; the searches of the first run then settle without
  effect, whereas settling while their run was current would have written.\<close>

theorem suppression_after_cleanup_witness:
  "ui (fire (SearchesSettle 0 searchesAnswer)
         (run [BarcodeTyped ''3'']
            (fire Rendered (run (snackShown @ [Scanned ''2'']) initialRuntime)))) =
     ui (run [BarcodeTyped ''3'']
            (fire Rendered (run (snackShown @ [Scanned ''2'']) initialRuntime)))
   \<and> ui (fire (SearchesSettle 0 searchesAnswer) (run snackShown initialRuntime)) \<noteq>
       ui (run snackShown initialRuntime)
   \<and> Suc 0 = length (fetches (run snackShown initialRuntime))
   \<and> cleanup (run snackShown initialRuntime) = Some 0"
proof -
  have triggered: "0 < length (fetches (run (snackShown @ [Scanned ''2'']) initialRuntime))"
    by code_simp
  have changed: "shown (run (snackShown @ [Scanned ''2'']) initialRuntime) \<noteq>
                 deps (run (snackShown @ [Scanned ''2'']) initialRuntime)"
    by code_simp
  have writes: "ui (fire (SearchesSettle 0 searchesAnswer) (run snackShown initialRuntime)) \<noteq>
       ui (run snackShown initialRuntime)"
    by code_simp
  show ?thesis
    using suppression_after_cleanup
            [of 0 "snackShown @ [Scanned ''2'']" searchesAnswer "[BarcodeTyped ''3'']" snackShown]
          triggered changed writes
    by blast
qed

text \<open>
  C1 as stated fails between the handler and the render. In the example session the
  searches for \<open>snack\<close> are in flight when the scanner reports another code: the lookup
  begins, \<open>product\<close> is null and both lists are empty. The flag of the first run is still
  set, so its searches, settling now, fill both lists and clear the loading flags. If
  the new lookup has delivered its product by then, the next render shows that product
  with the lists the superseded searches wrote.
\<close>

theorem stale_write_counterexample:
  "product (ui (run snackShown initialRuntime)) = Some snack
   \<and> closureProduct (fetches (run snackShown initialRuntime) ! 0) = snack
   \<and> product (ui (run (snackShown @ [Scanned ''2'']) initialRuntime)) = None
   \<and> healthyAlternatives (ui (run (snackShown @ [Scanned ''2'']) initialRuntime)) = []
   \<and> sustainableAlternatives (ui (run (snackShown @ [Scanned ''2'']) initialRuntime)) = []
   \<and> healthyLoading (ui (run (snackShown @ [Scanned ''2'']) initialRuntime)) = True
   \<and> healthyAlternatives
       (ui (run (snackShown @ [Scanned ''2'', SearchesSettle 0 searchesAnswer]) initialRuntime)) =
     [alternative]
   \<and> sustainableAlternatives
       (ui (run (snackShown @ [Scanned ''2'', SearchesSettle 0 searchesAnswer]) initialRuntime)) =
     [alternative]
   \<and> healthyLoading
       (ui (run (snackShown @ [Scanned ''2'', SearchesSettle 0 searchesAnswer]) initialRuntime)) =
     False
   \<and> product
       (ui (run (snackShown @
              [Scanned ''2'',
               LookupSettles ''2''
                 (Fulfilled (ApiResult False
                    (Some (LookupData (Some 1) (Some (snack\<lparr>code := Some ''2''\<rparr>)))))),
               SearchesSettle 0 searchesAnswer, Rendered]) initialRuntime)) =
     Some (snack\<lparr>code := Some ''2''\<rparr>)
   \<and> healthyAlternatives
       (ui (run (snackShown @
              [Scanned ''2'',
               LookupSettles ''2''
                 (Fulfilled (ApiResult False
                    (Some (LookupData (Some 1) (Some (snack\<lparr>code := Some ''2''\<rparr>)))))),
               SearchesSettle 0 searchesAnswer, Rendered]) initialRuntime)) =
     [alternative]"
  by code_simp

end
